theory Spec2Isabelle
  imports Main "HOL-Library.Char_ord" "HOL-Library.List_Lexorder"
begin

section \<open>Values and errors exchanged with the vendor SDK\<close>

text \<open>
  The wrappers never inspect the values they carry, so a small JSON-like datatype is
  enough. \<open>JUndefined\<close> is JavaScript's \<^verbatim>\<open>undefined\<close>, \<open>JNull\<close> its
  \<^verbatim>\<open>null\<close>, and \<open>JServerTimestamp\<close> the sentinel returned by the vendor's
  \<^verbatim>\<open>serverTimestamp()\<close>. Numbers are kept as integers: no wrapper computes with them.
\<close>

datatype js_value =
    JUndefined
  | JNull
  | JBool bool
  | JNum int
  | JStr string
  | JServerTimestamp
  | JArr "js_value list"
  | JObj "(string \<times> js_value) list"

text \<open>
  A document's field object. The spread \<^verbatim>\<open>{ ...a, ...b }\<close> is \<open>a ++ b\<close> (the right
  operand wins on a shared key) and \<^verbatim>\<open>{ ...a, k: v }\<close> is \<open>a(k \<mapsto> v)\<close>.
\<close>

type_synonym document_data = "string \<rightharpoonup> js_value"

text \<open>
  A thrown value: the vendor's errors carry a \<^verbatim>\<open>code\<close> and a \<^verbatim>\<open>message\<close>; a plain
  \<^verbatim>\<open>new Error(msg)\<close> has no code. A missing property is \<open>None\<close>.
\<close>

datatype js_error = JsError (err_code: "string option") (err_message: "string option")

definition new_Error :: "string \<Rightarrow> js_error" where
  "new_Error msg = JsError None (Some msg)"

record doc_ref =
  ref_id :: string
  ref_path :: string

section \<open>FirekitDoc (dist/firestore/doc.svelte.js)\<close>

text \<open>
  \<open>snap_data\<close> is \<^verbatim>\<open>snapshot.data()\<close>: \<open>None\<close> when the vendor returns
  \<^verbatim>\<open>undefined\<close> (the document does not exist), otherwise the field object, which is
  truthy in JavaScript even when it has no field.
\<close>

record doc_snapshot =
  snap_id :: string
  snap_data :: "document_data option"

text \<open>The fields of the class; \<open>None\<close> is \<^verbatim>\<open>null\<close>.\<close>

record firekit_doc =
  doc_data :: "document_data option"
  doc_loading :: bool
  doc_error :: "js_error option"
  docRef :: "doc_ref option"

text \<open>The success callback handed to \<^verbatim>\<open>onSnapshot\<close> (lines 57 to 61).\<close>

definition FirekitDoc_onSnapshot :: "doc_snapshot \<Rightarrow> firekit_doc \<Rightarrow> firekit_doc" where
  "FirekitDoc_onSnapshot snapshot this =
     (let data = snap_data snapshot in
      this\<lparr> doc_data :=
               (case data of
                  Some d \<Rightarrow> Some (d(''id'' \<mapsto> JStr (snap_id snapshot)))
                | None \<Rightarrow> None),
             doc_loading := False,
             doc_error := None \<rparr>)"

text \<open>The error callback handed to \<^verbatim>\<open>onSnapshot\<close> (lines 62 to 65).\<close>

definition FirekitDoc_onError :: "js_error \<Rightarrow> firekit_doc \<Rightarrow> firekit_doc" where
  "FirekitDoc_onError error this = this\<lparr> doc_error := Some error, doc_loading := False \<rparr>"

text \<open>
  The constructor. \<open>browser\<close> is the framework's flag, \<open>getDbInstance\<close> the outcome of
  \<^verbatim>\<open>firebaseService.getDbInstance()\<close>, and \<open>ref\<close> is either a path (resolved by the
  vendor's \<^verbatim>\<open>doc(firestore, ref)\<close>, here \<open>sdk_doc\<close>) or a reference. Registering the
  listener is itself a vendor call that may throw (\<open>onSnapshot_registers\<close>); the
  callbacks run later, as the two functions above.
\<close>

definition FirekitDoc_new ::
  "bool \<Rightarrow> (js_error + unit) \<Rightarrow> (string \<Rightarrow> js_error + doc_ref) \<Rightarrow> (doc_ref \<Rightarrow> js_error option) \<Rightarrow>
   (string + doc_ref) \<Rightarrow> document_data option \<Rightarrow> firekit_doc" where
  "FirekitDoc_new browser getDbInstance sdk_doc onSnapshot_registers ref startWith =
     (let this = \<lparr> doc_data = startWith, doc_loading = True, doc_error = None, docRef = None \<rparr>
      in if browser then
           (case getDbInstance of
              Inl error \<Rightarrow> this\<lparr> doc_error := Some error, doc_loading := False \<rparr>
            | Inr firestore \<Rightarrow>
                (case (case ref of Inl path \<Rightarrow> sdk_doc path | Inr r \<Rightarrow> Inr r) of
                   Inl error \<Rightarrow> this\<lparr> doc_error := Some error, doc_loading := False \<rparr>
                 | Inr r \<Rightarrow>
                     (let this = this\<lparr> docRef := Some r \<rparr>
                      in case onSnapshot_registers r of
                           Some error \<Rightarrow> this\<lparr> doc_error := Some error, doc_loading := False \<rparr>
                         | None \<Rightarrow> this)))
         else this)"

definition FirekitDoc_data :: "firekit_doc \<Rightarrow> document_data option" where
  "FirekitDoc_data this = doc_data this"

definition FirekitDoc_id :: "firekit_doc \<Rightarrow> string" where
  "FirekitDoc_id this = (case docRef this of Some r \<Rightarrow> ref_id r | None \<Rightarrow> '''')"

definition FirekitDoc_loading :: "firekit_doc \<Rightarrow> bool" where
  "FirekitDoc_loading this = doc_loading this"

definition FirekitDoc_error :: "firekit_doc \<Rightarrow> js_error option" where
  "FirekitDoc_error this = doc_error this"

definition FirekitDoc_exists :: "firekit_doc \<Rightarrow> bool" where
  "FirekitDoc_exists this = (doc_data this \<noteq> None)"

section \<open>FirekitCollectionGroup (dist/firestore/collection-group.svelte.js)\<close>

text \<open>
  One element of \<^verbatim>\<open>snapshot.docs\<close>: a query document snapshot always has data.
\<close>

record query_doc_snapshot =
  qdoc_id :: string
  qdoc_ref :: doc_ref
  qdoc_data :: document_data

record firekit_collection_group =
  cg_data :: "document_data list"
  cg_loading :: bool
  cg_error :: "js_error option"
  queryRef :: "string option"

text \<open>
  The object literal of lines 48 to 52: \<^verbatim>\<open>id\<close> and \<^verbatim>\<open>path\<close> are written first and
  the document's fields are spread after them.
\<close>

definition FirekitCollectionGroup_project :: "query_doc_snapshot \<Rightarrow> document_data" where
  "FirekitCollectionGroup_project doc =
     [''id'' \<mapsto> JStr (qdoc_id doc), ''path'' \<mapsto> JStr (ref_path (qdoc_ref doc))] ++ qdoc_data doc"

definition FirekitCollectionGroup_onSnapshot ::
  "query_doc_snapshot list \<Rightarrow> firekit_collection_group \<Rightarrow> firekit_collection_group" where
  "FirekitCollectionGroup_onSnapshot docs this =
     this\<lparr> cg_data := map FirekitCollectionGroup_project docs,
           cg_loading := False,
           cg_error := None \<rparr>"

definition FirekitCollectionGroup_onError ::
  "js_error \<Rightarrow> firekit_collection_group \<Rightarrow> firekit_collection_group" where
  "FirekitCollectionGroup_onError error this = this\<lparr> cg_error := Some error, cg_loading := False \<rparr>"

text \<open>
  The constructor. \<open>sdk_query\<close> stands for the vendor's \<^verbatim>\<open>collectionGroup\<close> followed
  by \<^verbatim>\<open>query\<close> with the caller's constraints, and \<open>onSnapshot_registers\<close> for the
  registration of the listener; each may throw.
\<close>

definition FirekitCollectionGroup_new ::
  "bool \<Rightarrow> (js_error + unit) \<Rightarrow> (string \<Rightarrow> js_error + string) \<Rightarrow> (string \<Rightarrow> js_error option) \<Rightarrow>
   string \<Rightarrow> firekit_collection_group" where
  "FirekitCollectionGroup_new browser getDbInstance sdk_query onSnapshot_registers collectionId =
     (let this = \<lparr> cg_data = [], cg_loading = True, cg_error = None, queryRef = None \<rparr>
      in if browser then
           (case getDbInstance of
              Inl error \<Rightarrow> this\<lparr> cg_error := Some error, cg_loading := False \<rparr>
            | Inr firestore \<Rightarrow>
                (case sdk_query collectionId of
                   Inl error \<Rightarrow> this\<lparr> cg_error := Some error, cg_loading := False \<rparr>
                 | Inr q \<Rightarrow>
                     (let this = this\<lparr> queryRef := Some q \<rparr>
                      in case onSnapshot_registers q of
                           Some error \<Rightarrow> this\<lparr> cg_error := Some error, cg_loading := False \<rparr>
                         | None \<Rightarrow> this)))
         else this)"

definition FirekitCollectionGroup_data :: "firekit_collection_group \<Rightarrow> document_data list" where
  "FirekitCollectionGroup_data this = cg_data this"

definition FirekitCollectionGroup_loading :: "firekit_collection_group \<Rightarrow> bool" where
  "FirekitCollectionGroup_loading this = cg_loading this"

definition FirekitCollectionGroup_error :: "firekit_collection_group \<Rightarrow> js_error option" where
  "FirekitCollectionGroup_error this = cg_error this"

definition FirekitCollectionGroup_empty :: "firekit_collection_group \<Rightarrow> bool" where
  "FirekitCollectionGroup_empty this = (length (cg_data this) = 0)"

definition FirekitCollectionGroup_size :: "firekit_collection_group \<Rightarrow> nat" where
  "FirekitCollectionGroup_size this = length (cg_data this)"

section \<open>FirekitRealtimeDB (dist/realtime/realtime.svelte.js)\<close>

text \<open>
  \<open>unsubscribe\<close> holds the handle of the function returned by the vendor's
  \<^verbatim>\<open>onValue\<close>. Calling that function is an effect on the vendor's side: the model
  records each call in a log of the handles that were invoked.
\<close>

record firekit_realtime_db =
  rt_data :: js_value
  rt_loading :: bool
  rt_error :: "js_error option"
  dbRef :: "string option"
  unsubscribe :: "nat option"

definition FirekitRealtimeDB_onValue :: "js_value \<Rightarrow> firekit_realtime_db \<Rightarrow> firekit_realtime_db" where
  "FirekitRealtimeDB_onValue val this =
     this\<lparr> rt_data := val, rt_loading := False, rt_error := None \<rparr>"

definition FirekitRealtimeDB_onError :: "js_error \<Rightarrow> firekit_realtime_db \<Rightarrow> firekit_realtime_db" where
  "FirekitRealtimeDB_onError error this = this\<lparr> rt_error := Some error, rt_loading := False \<rparr>"

text \<open>
  \<^verbatim>\<open>initializeRealtimeDB(path)\<close>: each vendor call may throw; the catch block stores
  the error.
\<close>

definition initializeRealtimeDB ::
  "(js_error + unit) \<Rightarrow> (string \<Rightarrow> js_error + string) \<Rightarrow> (string \<Rightarrow> js_error + nat) \<Rightarrow>
   string \<Rightarrow> firekit_realtime_db \<Rightarrow> firekit_realtime_db" where
  "initializeRealtimeDB getDatabaseInstance sdk_ref sdk_onValue path this =
     (case getDatabaseInstance of
        Inl error \<Rightarrow> this\<lparr> rt_error := Some error, rt_loading := False \<rparr>
      | Inr database \<Rightarrow>
          (case sdk_ref path of
             Inl error \<Rightarrow> this\<lparr> rt_error := Some error, rt_loading := False \<rparr>
           | Inr r \<Rightarrow>
               (let this = this\<lparr> dbRef := Some r \<rparr>
                in case sdk_onValue r of
                     Inl error \<Rightarrow> this\<lparr> rt_error := Some error, rt_loading := False \<rparr>
                   | Inr u \<Rightarrow> this\<lparr> unsubscribe := Some u \<rparr>)))"

text \<open>\<^verbatim>\<open>startWith ?? null\<close>\<close>

definition nullish_or_null :: "js_value \<Rightarrow> js_value" where
  "nullish_or_null v = (if v = JUndefined \<or> v = JNull then JNull else v)"

definition FirekitRealtimeDB_new ::
  "bool \<Rightarrow> (js_error + unit) \<Rightarrow> (string \<Rightarrow> js_error + string) \<Rightarrow> (string \<Rightarrow> js_error + nat) \<Rightarrow>
   string \<Rightarrow> js_value \<Rightarrow> firekit_realtime_db" where
  "FirekitRealtimeDB_new browser getDatabaseInstance sdk_ref sdk_onValue path startWith =
     (let this = \<lparr> rt_data = nullish_or_null startWith, rt_loading = True, rt_error = None,
                   dbRef = None, unsubscribe = None \<rparr>
      in if browser then initializeRealtimeDB getDatabaseInstance sdk_ref sdk_onValue path this
         else this)"

definition FirekitRealtimeDB_data :: "firekit_realtime_db \<Rightarrow> js_value" where
  "FirekitRealtimeDB_data this = rt_data this"

definition FirekitRealtimeDB_loading :: "firekit_realtime_db \<Rightarrow> bool" where
  "FirekitRealtimeDB_loading this = rt_loading this"

definition FirekitRealtimeDB_error :: "firekit_realtime_db \<Rightarrow> js_error option" where
  "FirekitRealtimeDB_error this = rt_error this"

text \<open>
  \<^verbatim>\<open>dispose()\<close>: the second component is the log of unsubscribe functions invoked so
  far.
\<close>

definition FirekitRealtimeDB_dispose ::
  "firekit_realtime_db \<Rightarrow> nat list \<Rightarrow> firekit_realtime_db \<times> nat list" where
  "FirekitRealtimeDB_dispose this invoked =
     (case unsubscribe this of
        Some u \<Rightarrow> (this, invoked @ [u])
      | None \<Rightarrow> (this, invoked))"

section \<open>Calls into the vendor SDK: outcomes and effects\<close>

text \<open>
  An asynchronous method is modelled as a function from a state to an outcome and the
  state it leaves behind: \<open>Inl e\<close> is a rejected promise (or a throw) with the value
  \<open>e\<close>, \<open>Inr x\<close> a fulfilled one. \<^verbatim>\<open>await\<close> is \<open>io_bind\<close>, a
  \<^verbatim>\<open>try { ... } catch (error) { ... }\<close> block is \<open>io_catch\<close>, and
  \<^verbatim>\<open>finally\<close> is \<open>io_finally\<close>. What a failed step has already done to the
  state stays done.
\<close>

type_synonym ('s, 'a) io = "'s \<Rightarrow> (js_error + 'a) \<times> 's"

definition io_return :: "'a \<Rightarrow> ('s, 'a) io" where
  "io_return x = (\<lambda>s. (Inr x, s))"

definition io_throw :: "js_error \<Rightarrow> ('s, 'a) io" where
  "io_throw e = (\<lambda>s. (Inl e, s))"

definition io_lift :: "js_error + 'a \<Rightarrow> ('s, 'a) io" where
  "io_lift r = (\<lambda>s. (r, s))"

definition io_bind :: "('s, 'a) io \<Rightarrow> ('a \<Rightarrow> ('s, 'b) io) \<Rightarrow> ('s, 'b) io" where
  "io_bind m f = (\<lambda>s. case m s of (Inl e, s') \<Rightarrow> (Inl e, s') | (Inr x, s') \<Rightarrow> f x s')"

definition io_catch :: "('s, 'a) io \<Rightarrow> (js_error \<Rightarrow> ('s, 'a) io) \<Rightarrow> ('s, 'a) io" where
  "io_catch m h = (\<lambda>s. case m s of (Inl e, s') \<Rightarrow> h e s' | (Inr x, s') \<Rightarrow> (Inr x, s'))"


definition io_get :: "('s, 's) io" where
  "io_get = (\<lambda>s. (Inr s, s))"

definition io_modify :: "('s \<Rightarrow> 's) \<Rightarrow> ('s, unit) io" where
  "io_modify f = (\<lambda>s. (Inr (), f s))"

section \<open>FirekitDocumentMutations (dist/firestore/document-mutations.svelte.js)\<close>

text \<open>
  The third argument of the vendor's \<^verbatim>\<open>setDoc\<close>: absent in \<^verbatim>\<open>add\<close>, and
  \<^verbatim>\<open>{ merge: options.merge }\<close> in \<^verbatim>\<open>set\<close>.
\<close>

datatype set_options = NoSetOptions | SetOptions (so_merge: "bool option")

text \<open>Every call that reaches the document store, with its arguments, in order.\<close>

datatype store_op =
    AddDoc string document_data
  | SetDoc doc_ref document_data set_options
  | UpdateDoc doc_ref document_data
  | DeleteDoc doc_ref
  | GetDoc doc_ref

text \<open>
  The vendor SDK as the methods see it: what each call returns or throws. A collection
  reference is identified by its path. \<open>sdk_doc_in\<close> is \<^verbatim>\<open>doc(colRef, id)\<close>, whose
  second argument may be \<^verbatim>\<open>undefined\<close>. \<open>firekitUser_uid\<close> is
  \<^verbatim>\<open>firekitUser.uid\<close>, \<^verbatim>\<open>undefined\<close> when nobody is signed in.
\<close>

record firestore_sdk =
  getDbInstance :: "js_error + unit"
  sdk_collection :: "string \<Rightarrow> js_error + string"
  sdk_doc :: "string \<Rightarrow> js_error + doc_ref"
  sdk_doc_in :: "string \<Rightarrow> string option \<Rightarrow> js_error + doc_ref"
  sdk_addDoc :: "string \<Rightarrow> document_data \<Rightarrow> js_error + doc_ref"
  sdk_setDoc :: "doc_ref \<Rightarrow> document_data \<Rightarrow> set_options \<Rightarrow> js_error + unit"
  sdk_updateDoc :: "doc_ref \<Rightarrow> document_data \<Rightarrow> js_error + unit"
  sdk_deleteDoc :: "doc_ref \<Rightarrow> js_error + unit"
  sdk_getDoc :: "doc_ref \<Rightarrow> js_error + doc_snapshot"
  firekitUser_uid :: "string option"

definition addDoc :: "firestore_sdk \<Rightarrow> string \<Rightarrow> document_data \<Rightarrow> (store_op list, doc_ref) io" where
  "addDoc sdk colRef d = (\<lambda>log. (sdk_addDoc sdk colRef d, log @ [AddDoc colRef d]))"

definition setDoc ::
  "firestore_sdk \<Rightarrow> doc_ref \<Rightarrow> document_data \<Rightarrow> set_options \<Rightarrow> (store_op list, unit) io" where
  "setDoc sdk r d opts = (\<lambda>log. (sdk_setDoc sdk r d opts, log @ [SetDoc r d opts]))"

definition updateDoc :: "firestore_sdk \<Rightarrow> doc_ref \<Rightarrow> document_data \<Rightarrow> (store_op list, unit) io" where
  "updateDoc sdk r d = (\<lambda>log. (sdk_updateDoc sdk r d, log @ [UpdateDoc r d]))"

definition deleteDoc :: "firestore_sdk \<Rightarrow> doc_ref \<Rightarrow> (store_op list, unit) io" where
  "deleteDoc sdk r = (\<lambda>log. (sdk_deleteDoc sdk r, log @ [DeleteDoc r]))"

definition getDoc :: "firestore_sdk \<Rightarrow> doc_ref \<Rightarrow> (store_op list, doc_snapshot) io" where
  "getDoc sdk r = (\<lambda>log. (sdk_getDoc sdk r, log @ [GetDoc r]))"

record mutation_options =
  opt_timestamps :: "bool option"
  opt_merge :: "bool option"
  opt_customId :: "string option"

record mutation_error =
  me_code :: string
  me_message :: string

record mutation_response =
  success :: bool
  resp_id :: "string option"
  resp_data :: "document_data option"
  resp_error :: "mutation_error option"

text \<open>JavaScript truthiness of an optional flag and of an optional string.\<close>

definition truthy_flag :: "bool option \<Rightarrow> bool" where
  "truthy_flag b = (b = Some True)"

definition truthy_string :: "string option \<Rightarrow> bool" where
  "truthy_string x = (case x of None \<Rightarrow> False | Some str \<Rightarrow> str \<noteq> [])"

text \<open>\<^verbatim>\<open>x || fallback\<close> on an optional string.\<close>

definition or_else :: "string option \<Rightarrow> string \<Rightarrow> string" where
  "or_else x fallback = (case x of None \<Rightarrow> fallback | Some str \<Rightarrow> if str = [] then fallback else str)"

definition uid_value :: "string option \<Rightarrow> js_value" where
  "uid_value u = (case u of None \<Rightarrow> JUndefined | Some str \<Rightarrow> JStr str)"

definition getTimestampData :: "firestore_sdk \<Rightarrow> bool \<Rightarrow> document_data" where
  "getTimestampData sdk isNew =
     (let timestamps = [''updatedAt'' \<mapsto> JServerTimestamp,
                        ''updatedBy'' \<mapsto> uid_value (firekitUser_uid sdk)]
      in if isNew
         then timestamps(''createdAt'' \<mapsto> JServerTimestamp,
                         ''createdBy'' \<mapsto> uid_value (firekitUser_uid sdk))
         else timestamps)"

text \<open>
  \<^verbatim>\<open>...(options.timestamps && this.getTimestampData(isNew))\<close>: spreading a falsy
  value adds nothing.
\<close>

definition timestamps_spread :: "firestore_sdk \<Rightarrow> mutation_options \<Rightarrow> bool \<Rightarrow> document_data" where
  "timestamps_spread sdk options isNew =
     (if truthy_flag (opt_timestamps options) then getTimestampData sdk isNew else Map.empty)"

definition handleError :: "js_error \<Rightarrow> mutation_response" where
  "handleError error =
     \<lparr> success = False, resp_id = None, resp_data = None,
       resp_error = Some \<lparr> me_code = or_else (err_code error) ''unknown_error'',
                           me_message = or_else (err_message error) ''An unknown error occurred'' \<rparr> \<rparr>"

text \<open>
  The default values of the \<^verbatim>\<open>options\<close> parameter; \<open>None\<close> is an omitted argument.
\<close>

definition add_default_options :: mutation_options where
  "add_default_options = \<lparr> opt_timestamps = Some True, opt_merge = None, opt_customId = None \<rparr>"

definition set_default_options :: mutation_options where
  "set_default_options = \<lparr> opt_timestamps = Some True, opt_merge = Some False, opt_customId = None \<rparr>"

definition update_default_options :: mutation_options where
  "update_default_options = \<lparr> opt_timestamps = Some True, opt_merge = None, opt_customId = None \<rparr>"

definition options_or :: "mutation_options \<Rightarrow> mutation_options option \<Rightarrow> mutation_options" where
  "options_or dflt options = (case options of None \<Rightarrow> dflt | Some opts \<Rightarrow> opts)"

text \<open>The body of the \<^verbatim>\<open>try\<close> block of \<^verbatim>\<open>add\<close> (lines 79 to 100).\<close>

definition add_try ::
  "firestore_sdk \<Rightarrow> string \<Rightarrow> document_data \<Rightarrow> mutation_options \<Rightarrow> (store_op list, mutation_response) io" where
  "add_try sdk collectionPath d options =
     io_bind (io_lift (getDbInstance sdk)) (\<lambda>firestore.
     io_bind (io_lift (sdk_collection sdk collectionPath)) (\<lambda>colRef.
       let dataToAdd = d ++ timestamps_spread sdk options True
       in if truthy_string (opt_customId options) then
            io_bind (io_lift (sdk_doc_in sdk colRef (opt_customId options))) (\<lambda>docRef.
              let dataToAdd = dataToAdd(''id'' \<mapsto> JStr (ref_id docRef))
              in io_bind (setDoc sdk docRef dataToAdd NoSetOptions) (\<lambda>_.
                   io_return \<lparr> success = True, resp_id = Some (ref_id docRef),
                               resp_data = Some (dataToAdd(''id'' \<mapsto> JStr (ref_id docRef))),
                               resp_error = None \<rparr>))
          else
            io_bind (addDoc sdk colRef dataToAdd) (\<lambda>docRef.
              let dataToAdd = dataToAdd(''id'' \<mapsto> JStr (ref_id docRef))
              in io_bind (setDoc sdk docRef dataToAdd NoSetOptions) (\<lambda>_.
                   io_return \<lparr> success = True, resp_id = Some (ref_id docRef),
                               resp_data = Some (dataToAdd(''id'' \<mapsto> JStr (ref_id docRef))),
                               resp_error = None \<rparr>))))"

definition firekitDocMutations_add ::
  "firestore_sdk \<Rightarrow> string \<Rightarrow> document_data \<Rightarrow> mutation_options option \<Rightarrow>
   (store_op list, mutation_response) io" where
  "firekitDocMutations_add sdk collectionPath d options =
     io_catch
       (add_try sdk collectionPath d (options_or add_default_options options))
       (\<lambda>error. io_return (handleError error))"

text \<open>
  The body of the \<^verbatim>\<open>try\<close> block of \<^verbatim>\<open>set\<close> (lines 124 to 143). A path without
  a slash is split into a collection path and an undefined document id.
\<close>

definition set_try ::
  "firestore_sdk \<Rightarrow> string \<Rightarrow> document_data \<Rightarrow> mutation_options \<Rightarrow> (store_op list, mutation_response) io" where
  "set_try sdk path d options =
     io_bind (io_lift (getDbInstance sdk)) (\<lambda>firestore.
     io_bind
       (if CHR ''/'' \<in> set path then io_lift (sdk_doc sdk path)
        else io_bind (io_lift (sdk_collection sdk path)) (\<lambda>colRef.
               io_lift (sdk_doc_in sdk colRef None)))
       (\<lambda>docRef.
          let dataToSet = (d ++ timestamps_spread sdk options True)(''id'' \<mapsto> JStr (ref_id docRef))
          in io_bind (setDoc sdk docRef dataToSet (SetOptions (opt_merge options))) (\<lambda>_.
               io_return \<lparr> success = True, resp_id = Some (ref_id docRef),
                           resp_data = Some dataToSet, resp_error = None \<rparr>)))"

definition firekitDocMutations_set ::
  "firestore_sdk \<Rightarrow> string \<Rightarrow> document_data \<Rightarrow> mutation_options option \<Rightarrow>
   (store_op list, mutation_response) io" where
  "firekitDocMutations_set sdk path d options =
     io_catch
       (set_try sdk path d (options_or set_default_options options))
       (\<lambda>error. io_return (handleError error))"

text \<open>The body of the \<^verbatim>\<open>try\<close> block of \<^verbatim>\<open>update\<close> (lines 166 to 177).\<close>

definition update_try ::
  "firestore_sdk \<Rightarrow> string \<Rightarrow> document_data \<Rightarrow> mutation_options \<Rightarrow> (store_op list, mutation_response) io" where
  "update_try sdk path d options =
     io_bind (io_lift (getDbInstance sdk)) (\<lambda>firestore.
     io_bind (io_lift (sdk_doc sdk path)) (\<lambda>docRef.
       let dataToUpdate = d ++ timestamps_spread sdk options False
       in io_bind (updateDoc sdk docRef dataToUpdate) (\<lambda>_.
            io_return \<lparr> success = True, resp_id = Some (ref_id docRef),
                        resp_data = Some dataToUpdate, resp_error = None \<rparr>)))"

definition firekitDocMutations_update ::
  "firestore_sdk \<Rightarrow> string \<Rightarrow> document_data \<Rightarrow> mutation_options option \<Rightarrow>
   (store_op list, mutation_response) io" where
  "firekitDocMutations_update sdk path d options =
     io_catch
       (update_try sdk path d (options_or update_default_options options))
       (\<lambda>error. io_return (handleError error))"

text \<open>The body of the \<^verbatim>\<open>try\<close> block of \<^verbatim>\<open>delete\<close> (lines 195 to 201).\<close>

definition delete_try :: "firestore_sdk \<Rightarrow> string \<Rightarrow> (store_op list, mutation_response) io" where
  "delete_try sdk path =
     io_bind (io_lift (getDbInstance sdk)) (\<lambda>firestore.
     io_bind (io_lift (sdk_doc sdk path)) (\<lambda>docRef.
     io_bind (deleteDoc sdk docRef) (\<lambda>_.
       io_return \<lparr> success = True, resp_id = Some (ref_id docRef),
                   resp_data = None, resp_error = None \<rparr>)))"

definition firekitDocMutations_delete ::
  "firestore_sdk \<Rightarrow> string \<Rightarrow> (store_op list, mutation_response) io" where
  "firekitDocMutations_delete sdk path =
     io_catch (delete_try sdk path) (\<lambda>error. io_return (handleError error))"

text \<open>
  \<^verbatim>\<open>exists(path)\<close> (lines 217 to 228); \<^verbatim>\<open>docSnap.exists()\<close> is true exactly when
  the snapshot has data.
\<close>

definition exists_try :: "firestore_sdk \<Rightarrow> string \<Rightarrow> (store_op list, bool) io" where
  "exists_try sdk path =
     io_bind (io_lift (getDbInstance sdk)) (\<lambda>firestore.
     io_bind (io_lift (sdk_doc sdk path)) (\<lambda>docRef.
     io_bind (getDoc sdk docRef) (\<lambda>docSnap.
       io_return (snap_data docSnap \<noteq> None))))"

definition firekitDocMutations_exists :: "firestore_sdk \<Rightarrow> string \<Rightarrow> (store_op list, bool) io" where
  "firekitDocMutations_exists sdk path =
     io_catch (exists_try sdk path) (\<lambda>error. io_return False)"

text \<open>The body of the \<^verbatim>\<open>try\<close> block of \<^verbatim>\<open>getDoc(path)\<close> (lines 245 to 261).\<close>

definition getDoc_try :: "firestore_sdk \<Rightarrow> string \<Rightarrow> (store_op list, mutation_response) io" where
  "getDoc_try sdk path =
     io_bind (io_lift (getDbInstance sdk)) (\<lambda>firestore.
     io_bind (io_lift (sdk_doc sdk path)) (\<lambda>docRef.
     io_bind (getDoc sdk docRef) (\<lambda>docSnap.
       case snap_data docSnap of
         None \<Rightarrow>
           io_return \<lparr> success = False, resp_id = None, resp_data = None,
                       resp_error = Some \<lparr> me_code = ''not_found'',
                                           me_message = ''Document does not exist'' \<rparr> \<rparr>
       | Some docdata \<Rightarrow>
           io_return \<lparr> success = True, resp_id = Some (snap_id docSnap),
                       resp_data = Some ([''id'' \<mapsto> JStr (snap_id docSnap)] ++ docdata),
                       resp_error = None \<rparr>)))"

definition firekitDocMutations_getDoc ::
  "firestore_sdk \<Rightarrow> string \<Rightarrow> (store_op list, mutation_response) io" where
  "firekitDocMutations_getDoc sdk path =
     io_catch (getDoc_try sdk path) (\<lambda>error. io_return (handleError error))"

section \<open>PresenceService (dist/auth/presence.svelte.js)\<close>

datatype geo_type = Geo_browser | Geo_ip | Geo_custom

text \<open>
  \<open>has_customGeolocationFn\<close> tells whether \<^verbatim>\<open>customGeolocationFn\<close> is configured; what
  the function returns is part of the environment below.
\<close>

record geolocation_config =
  geo_enabled :: bool
  geo_kind :: geo_type
  has_customGeolocationFn :: bool
  ipServiceUrl :: "string option"
  requireConsent :: "bool option"

record presence_config =
  geolocation :: "geolocation_config option"
  sessionTTL :: "int option"
  updateInterval :: "int option"

datatype presence_status = Online | Offline | Away

record location =
  latitude :: js_value
  longitude :: js_value
  lastUpdated :: string

record session_data =
  sd_uid :: string
  sd_userId :: string
  sd_deviceId :: string
  sd_status :: presence_status
  sd_createdAt :: string
  sd_lastSeen :: string
  sd_location :: "location option"

record auth_user =
  user_uid :: string

text \<open>
  What \<^verbatim>\<open>get(userSessionsRef)\<close> resolves to: no value at the path, or a value whose
  \<^verbatim>\<open>sessionDatas\<close> property may be missing.
\<close>

datatype sessions_snapshot = NoValue | Value (val_sessionDatas: "session_data list option")

datatype presence_event =
    Ev_init string int
  | Ev_error js_error int
  | Ev_status_change presence_status string "location option" int
  | Ev_disconnect int

datatype rtdb_op = RtdbGet string | RtdbSet string "session_data list"

text \<open>
  The fields of the singleton. A registered listener is a callback of the application:
  called with an event it returns (\<open>None\<close>) or throws (\<open>Some e\<close>). The set
  \<^verbatim>\<open>eventListeners\<close> is kept as the list of its members in insertion order, the
  order in which \<^verbatim>\<open>forEach\<close> visits them. Two logs follow the fields: the events
  handed to \<^verbatim>\<open>emitEvent\<close> and the calls that reached the realtime database.
\<close>

record presence_service =
  connectedListener :: "nat option"
  locationWatcher :: "nat option"
  currentUser :: "auth_user option"
  eventListeners :: "(presence_event \<Rightarrow> js_error option) list"
  config :: presence_config
  initialized :: bool
  locationConsent :: bool
  p_currentSession :: "session_data option"
  p_sessions :: "session_data list"
  p_status :: presence_status
  p_loading :: bool
  p_error :: "js_error option"
  emitted :: "presence_event list"
  rtdb_log :: "rtdb_op list"

text \<open>
  The browser and the vendor SDK as the service sees them. A database reference is
  identified by its path. \<open>deviceInfo\<close> is the string \<^verbatim>\<open>getDeviceInfo()\<close> derives from
  \<^verbatim>\<open>navigator\<close>. \<open>getCurrentPosition\<close> throws, calls its error callback (\<open>None\<close>) or
  delivers coordinates. The clock is read at several places: \<open>iso_createdAt\<close>,
  \<open>iso_lastSeen\<close> and \<open>iso_lastUpdated\<close> are the values of
  \<^verbatim>\<open>new Date().toISOString()\<close> there, \<open>now_cutoff\<close> and \<open>now_event\<close> those of
  \<^verbatim>\<open>Date.now()\<close>; \<open>toISOString\<close> formats a time value and throws on one out of
  range.
\<close>

record presence_env =
  browser :: bool
  getDatabaseInstance :: "js_error + unit"
  rtdb_ref :: "string \<Rightarrow> js_error + string"
  rtdb_onValue :: "string \<Rightarrow> js_error + nat"
  rtdb_get :: "string \<Rightarrow> js_error + sessions_snapshot"
  rtdb_set :: "string \<Rightarrow> session_data list \<Rightarrow> js_error + unit"
  deviceInfo :: string
  permissions_granted :: "js_error + bool"
  getCurrentPosition :: "js_error + (js_value \<times> js_value) option"
  customGeolocationFn :: "js_error + js_value \<times> js_value"
  fetch_location :: "string \<Rightarrow> js_error + js_value \<times> js_value"
  setInterval_id :: nat
  iso_createdAt :: string
  iso_lastSeen :: string
  iso_lastUpdated :: string
  now_cutoff :: int
  now_event :: int
  toISOString :: "int \<Rightarrow> js_error + string"



















text \<open>
  Lines 293 to 296. \<^verbatim>\<open>if (this.config.sessionTTL)\<close> is false for a missing and for a
  zero TTL. The comparison \<^verbatim>\<open>session.lastSeen >= cutoffTime\<close> is JavaScript's
  comparison of strings, the lexicographic order of their code units.
\<close>

definition cleanup_stale ::
  "presence_env \<Rightarrow> presence_config \<Rightarrow> session_data list \<Rightarrow> (presence_service, session_data list) io" where
  "cleanup_stale env cfg sessionDatas =
     (case sessionTTL cfg of
        None \<Rightarrow> io_return sessionDatas
      | Some ttl \<Rightarrow>
          if ttl = 0 then io_return sessionDatas
          else
            io_bind (io_lift (toISOString env (now_cutoff env - ttl))) (\<lambda>cutoffTime.
              io_return (filter (\<lambda>session. cutoffTime \<le> sd_lastSeen session) sessionDatas)))"







definition PresenceService_status :: "presence_service \<Rightarrow> presence_status" where
  "PresenceService_status this = p_status this"



section \<open>What a written payload may differ in\<close>

text \<open>
  \<open>augmented_with d extra payload\<close>: the payload has the fields of the caller's data
  \<open>d\<close> and those of \<open>extra\<close> and no other; the fields of \<open>extra\<close> have the values
  \<open>extra\<close> gives them, and every other field has the caller's value.
\<close>

definition augmented_with :: "document_data \<Rightarrow> document_data \<Rightarrow> document_data \<Rightarrow> bool" where
  "augmented_with d extra payload \<longleftrightarrow>
     dom payload = dom d \<union> dom extra
     \<and> (\<forall>k. k \<in> dom extra \<longrightarrow> payload k = extra k)
     \<and> (\<forall>k. k \<notin> dom extra \<longrightarrow> payload k = d k)"

text \<open>The data argument of a call that reached the store, and one field of it.\<close>

fun op_payload :: "store_op \<Rightarrow> document_data" where
  "op_payload (AddDoc c p) = p"
| "op_payload (SetDoc r p opts) = p"
| "op_payload (UpdateDoc r p) = p"
| "op_payload (DeleteDoc r) = Map.empty"
| "op_payload (GetDoc r) = Map.empty"

definition written_field :: "string \<Rightarrow> store_op \<Rightarrow> js_value option" where
  "written_field k op = op_payload op k"

section \<open>Test doubles for the examples\<close>

text \<open>
  A document store in which every call succeeds: a reference made from a path has the
  path's last segment as its id, and \<^verbatim>\<open>addDoc\<close> hands out the id \<open>auto1\<close>.
\<close>

definition last_segment :: "string \<Rightarrow> string" where
  "last_segment path = rev (takeWhile (\<lambda>c. c \<noteq> CHR ''/'') (rev path))"

definition sdk_ok :: firestore_sdk where
  "sdk_ok =
     \<lparr> getDbInstance = Inr (),
       sdk_collection = (\<lambda>path. Inr path),
       sdk_doc = (\<lambda>path. Inr \<lparr> ref_id = last_segment path, ref_path = path \<rparr>),
       sdk_doc_in = (\<lambda>col docId. case docId of
                        None \<Rightarrow> Inr \<lparr> ref_id = ''auto1'', ref_path = col @ ''/auto1'' \<rparr>
                      | Some i \<Rightarrow> Inr \<lparr> ref_id = i, ref_path = col @ ''/'' @ i \<rparr>),
       sdk_addDoc = (\<lambda>col d. Inr \<lparr> ref_id = ''auto1'', ref_path = col @ ''/auto1'' \<rparr>),
       sdk_setDoc = (\<lambda>r d opts. Inr ()),
       sdk_updateDoc = (\<lambda>r d. Inr ()),
       sdk_deleteDoc = (\<lambda>r. Inr ()),
       sdk_getDoc = (\<lambda>r. Inr \<lparr> snap_id = ref_id r, snap_data = None \<rparr>),
       firekitUser_uid = Some ''u1'' \<rparr>"

text \<open>The same store, except that every read and write of a document is refused.\<close>

definition permission_denied :: js_error where
  "permission_denied = JsError (Some ''permission-denied'') (Some ''Missing or insufficient permissions.'')"

definition sdk_denied :: firestore_sdk where
  "sdk_denied =
     sdk_ok\<lparr> sdk_addDoc := (\<lambda>col d. Inl permission_denied),
             sdk_setDoc := (\<lambda>r d opts. Inl permission_denied),
             sdk_updateDoc := (\<lambda>r d. Inl permission_denied),
             sdk_deleteDoc := (\<lambda>r. Inl permission_denied),
             sdk_getDoc := (\<lambda>r. Inl permission_denied) \<rparr>"

text \<open>The store of \<open>sdk_ok\<close> in which every document read finds a document.\<close>

definition sdk_found :: firestore_sdk where
  "sdk_found = sdk_ok\<lparr> sdk_getDoc := (\<lambda>r. Inr \<lparr> snap_id = ref_id r,
                                                  snap_data = Some [''name'' \<mapsto> JStr ''Ann''] \<rparr>) \<rparr>"









text \<open>Reading one field of an exposed document (\<^verbatim>\<open>data?.[k]\<close>).\<close>

definition doc_field :: "document_data option \<Rightarrow> string \<Rightarrow> js_value option" where
  "doc_field d k = (case d of None \<Rightarrow> None | Some m \<Rightarrow> m k)"

definition row_field :: "string \<Rightarrow> document_data \<Rightarrow> js_value option" where
  "row_field k row = row k"

text \<open>Freshly constructed wrappers, in a browser whose vendor calls succeed.\<close>

definition doc_123 :: firekit_doc where
  "doc_123 = FirekitDoc_new True (getDbInstance sdk_ok) (sdk_doc sdk_ok) (\<lambda>r. None)
               (Inl ''users/123'') (Some [''name'' \<mapsto> JStr ''Loading...''])"

definition rt_chat :: firekit_realtime_db where
  "rt_chat = FirekitRealtimeDB_new True (Inr ()) (\<lambda>p. Inr p) (\<lambda>r. Inr 4) ''chats/123'' (JStr ''hello'')"

definition tasks_group :: firekit_collection_group where
  "tasks_group = FirekitCollectionGroup_new True (Inr ()) (\<lambda>c. Inr c) (\<lambda>q. None) ''tasks''"

text \<open>A document of a collection group that stores a field named \<open>id\<close> of its own.\<close>

definition task_a1 :: query_doc_snapshot where
  "task_a1 = \<lparr> qdoc_id = ''a1'', qdoc_ref = \<lparr> ref_id = ''a1'', ref_path = ''users/u1/tasks/a1'' \<rparr>,
               qdoc_data = [''title'' \<mapsto> JStr ''write'', ''id'' \<mapsto> JStr ''legacy''] \<rparr>"

section \<open>Properties of the subscription wrappers\<close>

text \<open>
  Claim C1. In each of the three subscription wrappers (document, collection group,
  realtime database) the error callback stores the error it is given, unchanged, in the
  error field, sets the loading flag to false and leaves the data field as it was; the
  error getter then returns that error.
\<close>

theorem C1_error_callback_stores_error:
  "FirekitDoc_error (FirekitDoc_onError e d) = Some e
   \<and> FirekitDoc_loading (FirekitDoc_onError e d) = False
   \<and> FirekitDoc_data (FirekitDoc_onError e d) = FirekitDoc_data d
   \<and> FirekitCollectionGroup_error (FirekitCollectionGroup_onError e g) = Some e
   \<and> FirekitCollectionGroup_loading (FirekitCollectionGroup_onError e g) = False
   \<and> FirekitCollectionGroup_data (FirekitCollectionGroup_onError e g) = FirekitCollectionGroup_data g
   \<and> FirekitRealtimeDB_error (FirekitRealtimeDB_onError e r) = Some e
   \<and> FirekitRealtimeDB_loading (FirekitRealtimeDB_onError e r) = False
   \<and> FirekitRealtimeDB_data (FirekitRealtimeDB_onError e r) = FirekitRealtimeDB_data r"
  by (simp add: FirekitDoc_error_def FirekitDoc_loading_def FirekitDoc_data_def
      FirekitCollectionGroup_error_def FirekitCollectionGroup_loading_def FirekitCollectionGroup_data_def
      FirekitRealtimeDB_error_def FirekitRealtimeDB_loading_def FirekitRealtimeDB_data_def
      FirekitDoc_onError_def FirekitCollectionGroup_onError_def
      FirekitRealtimeDB_onError_def)

theorem C1_witness:
  "FirekitDoc_error (FirekitDoc_onError permission_denied doc_123) = Some permission_denied
   \<and> FirekitDoc_loading (FirekitDoc_onError permission_denied doc_123) = False
   \<and> doc_field (FirekitDoc_data (FirekitDoc_onError permission_denied doc_123)) ''name''
       = Some (JStr ''Loading...'')
   \<and> FirekitCollectionGroup_error (FirekitCollectionGroup_onError permission_denied tasks_group)
       = Some permission_denied
   \<and> FirekitCollectionGroup_data (FirekitCollectionGroup_onError permission_denied tasks_group) = []
   \<and> FirekitRealtimeDB_error (FirekitRealtimeDB_onError permission_denied rt_chat)
       = Some permission_denied
   \<and> FirekitRealtimeDB_loading (FirekitRealtimeDB_onError permission_denied rt_chat) = False
   \<and> FirekitRealtimeDB_data (FirekitRealtimeDB_onError permission_denied rt_chat) = JStr ''hello''"
  using C1_error_callback_stores_error [of permission_denied doc_123 tasks_group rt_chat]
  by (simp add: FirekitDoc_error_def FirekitDoc_loading_def FirekitDoc_data_def
      FirekitCollectionGroup_error_def FirekitCollectionGroup_loading_def FirekitCollectionGroup_data_def
      FirekitRealtimeDB_error_def FirekitRealtimeDB_loading_def FirekitRealtimeDB_data_def
      doc_123_def rt_chat_def tasks_group_def sdk_ok_def FirekitDoc_new_def
      FirekitRealtimeDB_new_def FirekitCollectionGroup_new_def initializeRealtimeDB_def
      nullish_or_null_def last_segment_def doc_field_def)

text \<open>
  Claim C5. A snapshot delivered to a document subscription is mirrored into the
  fields: when the snapshot carries data the exposed data is that data with \<open>id\<close> set to
  the snapshot's document id, otherwise it is null; loading becomes false and error
  null; and the \<open>exists\<close> getter is true exactly when the data is not null.
\<close>

theorem C5_doc_snapshot_mirrored:
  "FirekitDoc_data (FirekitDoc_onSnapshot snapshot this)
     = (case snap_data snapshot of
          Some d \<Rightarrow> Some (d(''id'' \<mapsto> JStr (snap_id snapshot)))
        | None \<Rightarrow> None)
   \<and> FirekitDoc_loading (FirekitDoc_onSnapshot snapshot this) = False
   \<and> FirekitDoc_error (FirekitDoc_onSnapshot snapshot this) = None
   \<and> (FirekitDoc_exists (FirekitDoc_onSnapshot snapshot this) \<longleftrightarrow> snap_data snapshot \<noteq> None)
   \<and> (FirekitDoc_exists this \<longleftrightarrow> FirekitDoc_data this \<noteq> None)"
  by (simp add: FirekitDoc_error_def FirekitDoc_loading_def FirekitDoc_data_def FirekitDoc_exists_def
      FirekitDoc_onSnapshot_def split: option.splits)

theorem C5_witness:
  "doc_field (FirekitDoc_data (FirekitDoc_onSnapshot
       \<lparr> snap_id = ''123'', snap_data = Some [''name'' \<mapsto> JStr ''Ann''] \<rparr> doc_123)) ''name''
     = Some (JStr ''Ann'')
   \<and> doc_field (FirekitDoc_data (FirekitDoc_onSnapshot
       \<lparr> snap_id = ''123'', snap_data = Some [''name'' \<mapsto> JStr ''Ann''] \<rparr> doc_123)) ''id''
     = Some (JStr ''123'')
   \<and> FirekitDoc_exists (FirekitDoc_onSnapshot
       \<lparr> snap_id = ''123'', snap_data = Some [''name'' \<mapsto> JStr ''Ann''] \<rparr> doc_123)
   \<and> FirekitDoc_data (FirekitDoc_onSnapshot \<lparr> snap_id = ''123'', snap_data = None \<rparr> doc_123) = None
   \<and> \<not> FirekitDoc_exists (FirekitDoc_onSnapshot \<lparr> snap_id = ''123'', snap_data = None \<rparr> doc_123)
   \<and> FirekitDoc_loading doc_123
   \<and> \<not> FirekitDoc_loading (FirekitDoc_onSnapshot \<lparr> snap_id = ''123'', snap_data = None \<rparr> doc_123)"
  using C5_doc_snapshot_mirrored [of "\<lparr> snap_id = ''123'', snap_data = Some [''name'' \<mapsto> JStr ''Ann''] \<rparr>" doc_123]
    C5_doc_snapshot_mirrored [of "\<lparr> snap_id = ''123'', snap_data = None \<rparr>" doc_123]
  by (simp add: doc_123_def sdk_ok_def FirekitDoc_new_def last_segment_def doc_field_def
      FirekitDoc_loading_def)

text \<open>
  Claim C8. When a delivered snapshot has data, the exposed data's \<open>id\<close> is the
  snapshot's document id, whatever \<open>id\<close> field the document itself stores: the
  synthetic identifier is written after the document's fields. Every other field is the
  document's.
\<close>

theorem C8_doc_id_overwrites_stored_id:
  "snap_data snapshot = Some d \<Longrightarrow>
     \<exists>exposed. FirekitDoc_data (FirekitDoc_onSnapshot snapshot this) = Some exposed
       \<and> exposed ''id'' = Some (JStr (snap_id snapshot))
       \<and> (\<forall>k. k \<noteq> ''id'' \<longrightarrow> exposed k = d k)"
  by (simp add: FirekitDoc_data_def FirekitDoc_onSnapshot_def)

theorem C8_witness:
  "snap_data \<lparr> snap_id = ''123'', snap_data = Some [''id'' \<mapsto> JStr ''stale'', ''name'' \<mapsto> JStr ''Ann''] \<rparr>
     = Some [''id'' \<mapsto> JStr ''stale'', ''name'' \<mapsto> JStr ''Ann'']
   \<and> doc_field (FirekitDoc_data (FirekitDoc_onSnapshot
        \<lparr> snap_id = ''123'', snap_data = Some [''id'' \<mapsto> JStr ''stale'', ''name'' \<mapsto> JStr ''Ann''] \<rparr>
        doc_123)) ''id'' = Some (JStr ''123'')"
  using C8_doc_id_overwrites_stored_id
    [of "\<lparr> snap_id = ''123'', snap_data = Some [''id'' \<mapsto> JStr ''stale'', ''name'' \<mapsto> JStr ''Ann''] \<rparr>"
        "[''id'' \<mapsto> JStr ''stale'', ''name'' \<mapsto> JStr ''Ann'']" doc_123]
  by (auto simp: doc_field_def)

text \<open>
  Claim C7. \<^verbatim>\<open>dispose()\<close> of the realtime database wrapper calls the stored
  unsubscribe function when there is one (and calls nothing otherwise), and the data,
  loading and error getters return afterwards what they returned before.
\<close>

theorem C7_dispose_keeps_fields:
  "FirekitRealtimeDB_data (fst (FirekitRealtimeDB_dispose this invoked)) = FirekitRealtimeDB_data this
   \<and> FirekitRealtimeDB_loading (fst (FirekitRealtimeDB_dispose this invoked)) = FirekitRealtimeDB_loading this
   \<and> FirekitRealtimeDB_error (fst (FirekitRealtimeDB_dispose this invoked)) = FirekitRealtimeDB_error this
   \<and> snd (FirekitRealtimeDB_dispose this invoked)
       = (case unsubscribe this of Some u \<Rightarrow> invoked @ [u] | None \<Rightarrow> invoked)"
  by (simp add: FirekitRealtimeDB_dispose_def split: option.splits)

theorem C7_witness:
  "FirekitRealtimeDB_data (fst (FirekitRealtimeDB_dispose rt_chat [])) = JStr ''hello''
   \<and> FirekitRealtimeDB_loading (fst (FirekitRealtimeDB_dispose rt_chat []))
   \<and> FirekitRealtimeDB_error (fst (FirekitRealtimeDB_dispose rt_chat [])) = None
   \<and> snd (FirekitRealtimeDB_dispose rt_chat []) = [4]
   \<and> snd (FirekitRealtimeDB_dispose (FirekitRealtimeDB_new False (Inr ()) Inr (\<lambda>r. Inr 4) ''chats/123'' JNull) []) = []"
  using C7_dispose_keeps_fields [of rt_chat "[]"]
    C7_dispose_keeps_fields [of "FirekitRealtimeDB_new False (Inr ()) Inr (\<lambda>r. Inr 4) ''chats/123'' JNull" "[]"]
  by (simp add: FirekitRealtimeDB_error_def FirekitRealtimeDB_loading_def FirekitRealtimeDB_data_def
      rt_chat_def FirekitRealtimeDB_new_def initializeRealtimeDB_def nullish_or_null_def)

section \<open>Properties of the collection group subscription\<close>

lemma project_dom:
  "dom (FirekitCollectionGroup_project doc) = dom (qdoc_data doc) \<union> {''id'', ''path''}"
  by (auto simp: FirekitCollectionGroup_project_def)

lemma project_own_fields:
  "k \<in> dom (qdoc_data doc) \<Longrightarrow> FirekitCollectionGroup_project doc k = qdoc_data doc k"
  by (auto simp: FirekitCollectionGroup_project_def map_add_def split: option.splits)

lemma project_synthetic:
  "k \<notin> dom (qdoc_data doc) \<Longrightarrow>
     FirekitCollectionGroup_project doc k
       = [''id'' \<mapsto> JStr (qdoc_id doc), ''path'' \<mapsto> JStr (ref_path (qdoc_ref doc))] k"
  by (auto simp: FirekitCollectionGroup_project_def map_add_def split: option.splits)

text \<open>
  Claim C4, as the code has it. A snapshot delivered to a collection group subscription
  yields one row per document, in order. A row has the document's own fields,
  unchanged, and the fields \<open>id\<close> and \<open>path\<close>; \<open>id\<close> is the document id and \<open>path\<close>
  the reference path unless the document stores a field of that name itself, which then
  wins. Loading becomes false and error null; \<open>size\<close> is the number of documents and
  \<open>empty\<close> holds exactly when \<open>size\<close> is zero.
\<close>

theorem C4_group_snapshot_forwarded:
  "length (FirekitCollectionGroup_data (FirekitCollectionGroup_onSnapshot docs this)) = length docs
   \<and> (\<forall>i < length docs.
         dom (FirekitCollectionGroup_data (FirekitCollectionGroup_onSnapshot docs this) ! i)
           = dom (qdoc_data (docs ! i)) \<union> {''id'', ''path''}
         \<and> (\<forall>k \<in> dom (qdoc_data (docs ! i)).
               (FirekitCollectionGroup_data (FirekitCollectionGroup_onSnapshot docs this) ! i) k
                 = qdoc_data (docs ! i) k)
         \<and> (''id'' \<notin> dom (qdoc_data (docs ! i)) \<longrightarrow>
               (FirekitCollectionGroup_data (FirekitCollectionGroup_onSnapshot docs this) ! i) ''id''
                 = Some (JStr (qdoc_id (docs ! i))))
         \<and> (''path'' \<notin> dom (qdoc_data (docs ! i)) \<longrightarrow>
               (FirekitCollectionGroup_data (FirekitCollectionGroup_onSnapshot docs this) ! i) ''path''
                 = Some (JStr (ref_path (qdoc_ref (docs ! i))))))
   \<and> FirekitCollectionGroup_loading (FirekitCollectionGroup_onSnapshot docs this) = False
   \<and> FirekitCollectionGroup_error (FirekitCollectionGroup_onSnapshot docs this) = None
   \<and> FirekitCollectionGroup_size (FirekitCollectionGroup_onSnapshot docs this) = length docs
   \<and> (FirekitCollectionGroup_empty (FirekitCollectionGroup_onSnapshot docs this)
        \<longleftrightarrow> FirekitCollectionGroup_size (FirekitCollectionGroup_onSnapshot docs this) = 0)"
proof -
  have rows: "FirekitCollectionGroup_data (FirekitCollectionGroup_onSnapshot docs this) ! i
                = FirekitCollectionGroup_project (docs ! i)" if "i < length docs" for i
    using that by (simp add: FirekitCollectionGroup_data_def FirekitCollectionGroup_onSnapshot_def)
  have each: "dom (FirekitCollectionGroup_data (FirekitCollectionGroup_onSnapshot docs this) ! i)
           = dom (qdoc_data (docs ! i)) \<union> {''id'', ''path''}
         \<and> (\<forall>k \<in> dom (qdoc_data (docs ! i)).
               (FirekitCollectionGroup_data (FirekitCollectionGroup_onSnapshot docs this) ! i) k
                 = qdoc_data (docs ! i) k)
         \<and> (''id'' \<notin> dom (qdoc_data (docs ! i)) \<longrightarrow>
               (FirekitCollectionGroup_data (FirekitCollectionGroup_onSnapshot docs this) ! i) ''id''
                 = Some (JStr (qdoc_id (docs ! i))))
         \<and> (''path'' \<notin> dom (qdoc_data (docs ! i)) \<longrightarrow>
               (FirekitCollectionGroup_data (FirekitCollectionGroup_onSnapshot docs this) ! i) ''path''
                 = Some (JStr (ref_path (qdoc_ref (docs ! i)))))"
    if "i < length docs" for i
    unfolding rows [OF that]
    using project_dom [of "docs ! i"] project_own_fields [of _ "docs ! i"]
      project_synthetic [of "''id''" "docs ! i"] project_synthetic [of "''path''" "docs ! i"]
    by simp
  have rest: "length (FirekitCollectionGroup_data (FirekitCollectionGroup_onSnapshot docs this)) = length docs
   \<and> FirekitCollectionGroup_loading (FirekitCollectionGroup_onSnapshot docs this) = False
   \<and> FirekitCollectionGroup_error (FirekitCollectionGroup_onSnapshot docs this) = None
   \<and> FirekitCollectionGroup_size (FirekitCollectionGroup_onSnapshot docs this) = length docs
   \<and> (FirekitCollectionGroup_empty (FirekitCollectionGroup_onSnapshot docs this)
        \<longleftrightarrow> FirekitCollectionGroup_size (FirekitCollectionGroup_onSnapshot docs this) = 0)"
    by (simp add: FirekitCollectionGroup_error_def FirekitCollectionGroup_loading_def FirekitCollectionGroup_data_def
        FirekitCollectionGroup_empty_def FirekitCollectionGroup_size_def
        FirekitCollectionGroup_onSnapshot_def)
  show ?thesis using each rest by blast
qed

theorem C4_witness:
  "map (row_field ''title'')
       (FirekitCollectionGroup_data (FirekitCollectionGroup_onSnapshot [task_a1] tasks_group))
     = [Some (JStr ''write'')]
   \<and> map (row_field ''path'')
       (FirekitCollectionGroup_data (FirekitCollectionGroup_onSnapshot [task_a1] tasks_group))
     = [Some (JStr ''users/u1/tasks/a1'')]
   \<and> FirekitCollectionGroup_size (FirekitCollectionGroup_onSnapshot [task_a1] tasks_group) = 1
   \<and> \<not> FirekitCollectionGroup_empty (FirekitCollectionGroup_onSnapshot [task_a1] tasks_group)
   \<and> FirekitCollectionGroup_empty (FirekitCollectionGroup_onSnapshot [] tasks_group)
   \<and> FirekitCollectionGroup_loading tasks_group
   \<and> \<not> FirekitCollectionGroup_loading (FirekitCollectionGroup_onSnapshot [task_a1] tasks_group)"
proof -
  have own: "''title'' \<in> dom (qdoc_data ([task_a1] ! 0))"
    and no_path: "''path'' \<notin> dom (qdoc_data ([task_a1] ! 0))"
    by (simp_all add: task_a1_def)
  note inst = C4_group_snapshot_forwarded [of "[task_a1]" tasks_group]
  have len: "length (FirekitCollectionGroup_data (FirekitCollectionGroup_onSnapshot [task_a1] tasks_group)) = 1"
    using inst by simp
  have title: "(FirekitCollectionGroup_data (FirekitCollectionGroup_onSnapshot [task_a1] tasks_group) ! 0) ''title''
        = Some (JStr ''write'')"
    using inst own by (auto simp: task_a1_def)
  have path: "(FirekitCollectionGroup_data (FirekitCollectionGroup_onSnapshot [task_a1] tasks_group) ! 0) ''path''
        = Some (JStr ''users/u1/tasks/a1'')"
    using inst no_path by (auto simp: task_a1_def)
  obtain row where row: "FirekitCollectionGroup_data (FirekitCollectionGroup_onSnapshot [task_a1] tasks_group) = [row]"
    using len by (auto simp: length_Suc_conv)
  have "map (row_field ''title'') [row] = [Some (JStr ''write'')]"
    and "map (row_field ''path'') [row] = [Some (JStr ''users/u1/tasks/a1'')]"
    using title path row by (simp_all add: row_field_def)
  moreover have "FirekitCollectionGroup_size (FirekitCollectionGroup_onSnapshot [task_a1] tasks_group) = 1
     \<and> \<not> FirekitCollectionGroup_empty (FirekitCollectionGroup_onSnapshot [task_a1] tasks_group)"
    using inst by simp
  moreover have "FirekitCollectionGroup_empty (FirekitCollectionGroup_onSnapshot [] tasks_group)"
    using C4_group_snapshot_forwarded [of "[]" tasks_group] by simp
  moreover have "FirekitCollectionGroup_loading tasks_group
     \<and> \<not> FirekitCollectionGroup_loading (FirekitCollectionGroup_onSnapshot [task_a1] tasks_group)"
    using inst by (simp add: FirekitCollectionGroup_loading_def FirekitCollectionGroup_onSnapshot_def
        tasks_group_def FirekitCollectionGroup_new_def)
  ultimately show ?thesis using row by simp
qed

text \<open>
  Claim C4 as stated fails for a document that stores an \<open>id\<close> field of its own: the
  exposed row shows the stored value, not the document id.
\<close>

theorem C4_counterexample:
  "qdoc_id task_a1 = ''a1''
   \<and> map (row_field ''id'')
       (FirekitCollectionGroup_data (FirekitCollectionGroup_onSnapshot [task_a1] tasks_group))
     = [Some (JStr ''legacy'')]"
  by (simp add: FirekitCollectionGroup_data_def FirekitCollectionGroup_onSnapshot_def FirekitCollectionGroup_project_def
      task_a1_def row_field_def)

section \<open>Properties of the document mutations\<close>

lemmas io_defs = io_return_def io_lift_def io_bind_def io_catch_def

lemma io_catch_return_fst:
  "fst (io_catch m (\<lambda>error. io_return (h error)) s)
     = Inr (case fst (m s) of Inl e \<Rightarrow> h e | Inr x \<Rightarrow> x)"
  by (simp add: io_catch_def io_return_def split: prod.splits sum.splits)

lemma exists_try_True:
  "fst (exists_try sdk path log) = Inr True \<longleftrightarrow>
     (\<exists>r snapshot. getDbInstance sdk = Inr () \<and> sdk_doc sdk path = Inr r
        \<and> sdk_getDoc sdk r = Inr snapshot \<and> snap_data snapshot \<noteq> None)"
  by (auto simp: exists_try_def io_defs getDoc_def split: sum.splits)

text \<open>
  Claim C10. \<^verbatim>\<open>exists(path)\<close> never passes an error on to its caller: it always
  returns a boolean. It returns true exactly when every vendor call succeeds and the
  snapshot has data; it returns false when the document is absent and also when the
  lookup throws, so the two cannot be told apart.
\<close>

theorem C10_exists_never_throws:
  "(\<exists>b. fst (firekitDocMutations_exists sdk path log) = Inr b)
   \<and> (fst (firekitDocMutations_exists sdk path log) = Inr True \<longleftrightarrow>
        (\<exists>r snapshot. getDbInstance sdk = Inr () \<and> sdk_doc sdk path = Inr r
           \<and> sdk_getDoc sdk r = Inr snapshot \<and> snap_data snapshot \<noteq> None))
   \<and> (getDbInstance sdk = Inr () \<and> sdk_doc sdk path = Inr r \<and> sdk_getDoc sdk r = Inl e
        \<longrightarrow> fst (firekitDocMutations_exists sdk path log) = Inr False)
   \<and> (getDbInstance sdk = Inr () \<and> sdk_doc sdk path = Inr r
        \<and> sdk_getDoc sdk r = Inr snapshot \<and> snap_data snapshot = None
        \<longrightarrow> fst (firekitDocMutations_exists sdk path log) = Inr False)"
proof -
  have total: "\<exists>b. fst (firekitDocMutations_exists sdk path log) = Inr b"
    by (simp add: firekitDocMutations_exists_def io_catch_return_fst)
  have true_iff: "fst (firekitDocMutations_exists sdk path log) = Inr True \<longleftrightarrow>
        (\<exists>r snapshot. getDbInstance sdk = Inr () \<and> sdk_doc sdk path = Inr r
           \<and> sdk_getDoc sdk r = Inr snapshot \<and> snap_data snapshot \<noteq> None)"
    using exists_try_True [of sdk path log]
    by (auto simp: firekitDocMutations_exists_def io_catch_return_fst split: sum.splits)
  have thrown: "fst (firekitDocMutations_exists sdk path log) = Inr False"
    if "getDbInstance sdk = Inr () \<and> sdk_doc sdk path = Inr r \<and> sdk_getDoc sdk r = Inl e"
    using that
    by (simp add: firekitDocMutations_exists_def exists_try_def io_defs getDoc_def)
  have absent: "fst (firekitDocMutations_exists sdk path log) = Inr False"
    if "getDbInstance sdk = Inr () \<and> sdk_doc sdk path = Inr r
        \<and> sdk_getDoc sdk r = Inr snapshot \<and> snap_data snapshot = None"
    using that
    by (simp add: firekitDocMutations_exists_def exists_try_def io_defs getDoc_def)
  show ?thesis using total true_iff thrown absent by blast
qed

theorem C10_witness:
  "fst (firekitDocMutations_exists sdk_found ''users/123'' []) = Inr True
   \<and> fst (firekitDocMutations_exists sdk_ok ''users/123'' []) = Inr False
   \<and> fst (firekitDocMutations_exists sdk_denied ''users/123'' []) = Inr False"
proof -
  let ?r = "\<lparr> ref_id = ''123'', ref_path = ''users/123'' \<rparr>"
  have found: "getDbInstance sdk_found = Inr () \<and> sdk_doc sdk_found ''users/123'' = Inr ?r
      \<and> sdk_getDoc sdk_found ?r = Inr \<lparr> snap_id = ''123'', snap_data = Some [''name'' \<mapsto> JStr ''Ann''] \<rparr>"
    by (simp add: sdk_found_def sdk_ok_def last_segment_def)
  have absent: "getDbInstance sdk_ok = Inr () \<and> sdk_doc sdk_ok ''users/123'' = Inr ?r
      \<and> sdk_getDoc sdk_ok ?r = Inr \<lparr> snap_id = ''123'', snap_data = None \<rparr>
      \<and> snap_data \<lparr> snap_id = ''123'', snap_data = None \<rparr> = None"
    by (simp add: sdk_ok_def last_segment_def)
  have denied: "getDbInstance sdk_denied = Inr () \<and> sdk_doc sdk_denied ''users/123'' = Inr ?r
      \<and> sdk_getDoc sdk_denied ?r = Inl permission_denied"
    by (simp add: sdk_denied_def sdk_ok_def last_segment_def)
  have "fst (firekitDocMutations_exists sdk_found ''users/123'' []) = Inr True"
    using C10_exists_never_throws [of sdk_found "''users/123''" "[]"] found by auto
  moreover have "fst (firekitDocMutations_exists sdk_ok ''users/123'' []) = Inr False"
    using C10_exists_never_throws [of sdk_ok "''users/123''" "[]" ?r _
        "\<lparr> snap_id = ''123'', snap_data = None \<rparr>"] absent by blast
  moreover have "fst (firekitDocMutations_exists sdk_denied ''users/123'' []) = Inr False"
    using C10_exists_never_throws [of sdk_denied "''users/123''" "[]" ?r permission_denied] denied
    by blast
  ultimately show ?thesis by simp
qed

text \<open>
  What each method returns and what it hands to the store, as a function of what the
  vendor's calls return.
\<close>

lemma delete_run:
  "firekitDocMutations_delete sdk path log =
     (case getDbInstance sdk of
        Inl e \<Rightarrow> (Inr (handleError e), log)
      | Inr u \<Rightarrow>
          (case sdk_doc sdk path of
             Inl e \<Rightarrow> (Inr (handleError e), log)
           | Inr target \<Rightarrow>
               (case sdk_deleteDoc sdk target of
                  Inl e \<Rightarrow> (Inr (handleError e), log @ [DeleteDoc target])
                | Inr v \<Rightarrow>
                    (Inr \<lparr> success = True, resp_id = Some (ref_id target), resp_data = None,
                           resp_error = None \<rparr>,
                     log @ [DeleteDoc target]))))"
  by (simp add: firekitDocMutations_delete_def delete_try_def io_defs deleteDoc_def
      split: sum.splits)

lemma update_run:
  "firekitDocMutations_update sdk path d opts log =
     (case getDbInstance sdk of
        Inl e \<Rightarrow> (Inr (handleError e), log)
      | Inr u \<Rightarrow>
          (case sdk_doc sdk path of
             Inl e \<Rightarrow> (Inr (handleError e), log)
           | Inr target \<Rightarrow>
               (case sdk_updateDoc sdk target
                       (d ++ timestamps_spread sdk (options_or update_default_options opts) False) of
                  Inl e \<Rightarrow>
                    (Inr (handleError e),
                     log @ [UpdateDoc target
                              (d ++ timestamps_spread sdk (options_or update_default_options opts) False)])
                | Inr v \<Rightarrow>
                    (Inr \<lparr> success = True, resp_id = Some (ref_id target),
                           resp_data = Some (d ++ timestamps_spread sdk
                                                    (options_or update_default_options opts) False),
                           resp_error = None \<rparr>,
                     log @ [UpdateDoc target
                              (d ++ timestamps_spread sdk (options_or update_default_options opts) False)]))))"
  by (simp add: firekitDocMutations_update_def update_try_def io_defs updateDoc_def Let_def
      split: sum.splits)

lemma getDoc_run:
  "firekitDocMutations_getDoc sdk path log =
     (case getDbInstance sdk of
        Inl e \<Rightarrow> (Inr (handleError e), log)
      | Inr u \<Rightarrow>
          (case sdk_doc sdk path of
             Inl e \<Rightarrow> (Inr (handleError e), log)
           | Inr target \<Rightarrow>
               (case sdk_getDoc sdk target of
                  Inl e \<Rightarrow> (Inr (handleError e), log @ [GetDoc target])
                | Inr docSnap \<Rightarrow>
                    (case snap_data docSnap of
                       None \<Rightarrow>
                         (Inr \<lparr> success = False, resp_id = None, resp_data = None,
                                resp_error = Some \<lparr> me_code = ''not_found'',
                                                    me_message = ''Document does not exist'' \<rparr> \<rparr>,
                          log @ [GetDoc target])
                     | Some docdata \<Rightarrow>
                         (Inr \<lparr> success = True, resp_id = Some (snap_id docSnap),
                                resp_data = Some ([''id'' \<mapsto> JStr (snap_id docSnap)] ++ docdata),
                                resp_error = None \<rparr>,
                          log @ [GetDoc target])))))"
  by (simp add: firekitDocMutations_getDoc_def getDoc_try_def io_defs getDoc_def
      split: sum.splits option.splits)

text \<open>The reference \<^verbatim>\<open>set\<close> writes to (lines 125 to 132), from the vendor's answers.\<close>

lemma set_run:
  "firekitDocMutations_set sdk path d opts log =
     (case getDbInstance sdk of
        Inl e \<Rightarrow> (Inr (handleError e), log)
      | Inr u \<Rightarrow>
          (case (if CHR ''/'' \<in> set path then sdk_doc sdk path
                 else (case sdk_collection sdk path of
                         Inl e \<Rightarrow> Inl e
                       | Inr colRef \<Rightarrow> sdk_doc_in sdk colRef None)) of
             Inl e \<Rightarrow> (Inr (handleError e), log)
           | Inr target \<Rightarrow>
               (case sdk_setDoc sdk target
                       ((d ++ timestamps_spread sdk (options_or set_default_options opts) True)
                          (''id'' \<mapsto> JStr (ref_id target)))
                       (SetOptions (opt_merge (options_or set_default_options opts))) of
                  Inl e \<Rightarrow>
                    (Inr (handleError e),
                     log @ [SetDoc target
                              ((d ++ timestamps_spread sdk (options_or set_default_options opts) True)
                                 (''id'' \<mapsto> JStr (ref_id target)))
                              (SetOptions (opt_merge (options_or set_default_options opts)))])
                | Inr v \<Rightarrow>
                    (Inr \<lparr> success = True, resp_id = Some (ref_id target),
                           resp_data = Some ((d ++ timestamps_spread sdk
                                                     (options_or set_default_options opts) True)
                                               (''id'' \<mapsto> JStr (ref_id target))),
                           resp_error = None \<rparr>,
                     log @ [SetDoc target
                              ((d ++ timestamps_spread sdk (options_or set_default_options opts) True)
                                 (''id'' \<mapsto> JStr (ref_id target)))
                              (SetOptions (opt_merge (options_or set_default_options opts)))]))))"
  by (simp add: firekitDocMutations_set_def set_try_def io_defs setDoc_def Let_def
      split: sum.splits)

lemma add_run:
  "firekitDocMutations_add sdk cp d opts log =
     (case getDbInstance sdk of
        Inl e \<Rightarrow> (Inr (handleError e), log)
      | Inr u \<Rightarrow>
          (case sdk_collection sdk cp of
             Inl e \<Rightarrow> (Inr (handleError e), log)
           | Inr colRef \<Rightarrow>
               (if truthy_string (opt_customId (options_or add_default_options opts)) then
                  (case sdk_doc_in sdk colRef (opt_customId (options_or add_default_options opts)) of
                     Inl e \<Rightarrow> (Inr (handleError e), log)
                   | Inr target \<Rightarrow>
                       (case sdk_setDoc sdk target
                               ((d ++ timestamps_spread sdk (options_or add_default_options opts) True)
                                  (''id'' \<mapsto> JStr (ref_id target)))
                               NoSetOptions of
                          Inl e \<Rightarrow>
                            (Inr (handleError e),
                             log @ [SetDoc target
                                      ((d ++ timestamps_spread sdk (options_or add_default_options opts) True)
                                         (''id'' \<mapsto> JStr (ref_id target)))
                                      NoSetOptions])
                        | Inr v \<Rightarrow>
                            (Inr \<lparr> success = True, resp_id = Some (ref_id target),
                                   resp_data = Some ((d ++ timestamps_spread sdk
                                                             (options_or add_default_options opts) True)
                                                       (''id'' \<mapsto> JStr (ref_id target))),
                                   resp_error = None \<rparr>,
                             log @ [SetDoc target
                                      ((d ++ timestamps_spread sdk (options_or add_default_options opts) True)
                                         (''id'' \<mapsto> JStr (ref_id target)))
                                      NoSetOptions])))
                else
                  (case sdk_addDoc sdk colRef
                          (d ++ timestamps_spread sdk (options_or add_default_options opts) True) of
                     Inl e \<Rightarrow>
                       (Inr (handleError e),
                        log @ [AddDoc colRef
                                 (d ++ timestamps_spread sdk (options_or add_default_options opts) True)])
                   | Inr target \<Rightarrow>
                       (case sdk_setDoc sdk target
                               ((d ++ timestamps_spread sdk (options_or add_default_options opts) True)
                                  (''id'' \<mapsto> JStr (ref_id target)))
                               NoSetOptions of
                          Inl e \<Rightarrow>
                            (Inr (handleError e),
                             log @ [AddDoc colRef
                                      (d ++ timestamps_spread sdk (options_or add_default_options opts) True),
                                    SetDoc target
                                      ((d ++ timestamps_spread sdk (options_or add_default_options opts) True)
                                         (''id'' \<mapsto> JStr (ref_id target)))
                                      NoSetOptions])
                        | Inr v \<Rightarrow>
                            (Inr \<lparr> success = True, resp_id = Some (ref_id target),
                                   resp_data = Some ((d ++ timestamps_spread sdk
                                                             (options_or add_default_options opts) True)
                                                       (''id'' \<mapsto> JStr (ref_id target))),
                                   resp_error = None \<rparr>,
                             log @ [AddDoc colRef
                                      (d ++ timestamps_spread sdk (options_or add_default_options opts) True),
                                    SetDoc target
                                      ((d ++ timestamps_spread sdk (options_or add_default_options opts) True)
                                         (''id'' \<mapsto> JStr (ref_id target)))
                                      NoSetOptions]))))))"
  by (simp add: firekitDocMutations_add_def add_try_def io_defs addDoc_def setDoc_def Let_def
      split: sum.splits)

lemma handleError_report:
  "\<not> success (handleError e) \<and> resp_id (handleError e) = None \<and> resp_data (handleError e) = None
   \<and> resp_error (handleError e)
       = Some \<lparr> me_code = (case err_code e of
                             None \<Rightarrow> ''unknown_error''
                           | Some c \<Rightarrow> if c = [] then ''unknown_error'' else c),
                me_message = (case err_message e of
                                None \<Rightarrow> ''An unknown error occurred''
                              | Some m \<Rightarrow> if m = [] then ''An unknown error occurred'' else m) \<rparr>"
  by (simp add: handleError_def or_else_def)

text \<open>
  Claim C3, as the code has it. None of \<^verbatim>\<open>add\<close>, \<^verbatim>\<open>set\<close>, \<^verbatim>\<open>update\<close>,
  \<^verbatim>\<open>delete\<close> and \<^verbatim>\<open>getDoc\<close> ever throws: each returns a response. Whichever
  vendor call of a method throws first, with \<open>e\<close>, the response is
  \<^verbatim>\<open>success: false\<close> with \<open>e\<close>'s code and message, where a missing or empty code is
  reported as \<open>unknown_error\<close> and a missing or empty message as
  \<open>An unknown error occurred\<close>. When every vendor call of \<^verbatim>\<open>add\<close>, \<^verbatim>\<open>set\<close>,
  \<^verbatim>\<open>update\<close> or \<^verbatim>\<open>delete\<close> succeeds, the response is \<^verbatim>\<open>success: true\<close> with
  the id of the target reference. When the vendor calls of \<^verbatim>\<open>getDoc\<close> succeed, the
  response is \<^verbatim>\<open>success: true\<close> with the snapshot's id if the document exists, and
  \<^verbatim>\<open>success: false\<close> with the code \<open>not_found\<close> if it does not.
\<close>

theorem C3_mutations_catch_and_report:
  fixes sdk :: firestore_sdk and d :: document_data and opts :: "mutation_options option"
    and target :: doc_ref
  defines "forAdd \<equiv> options_or add_default_options opts"
    and "forSet \<equiv> options_or set_default_options opts"
    and "forUpdate \<equiv> options_or update_default_options opts"
  defines "added \<equiv> (d ++ timestamps_spread sdk forAdd True)(''id'' \<mapsto> JStr (ref_id target))"
    and "written \<equiv> (d ++ timestamps_spread sdk forSet True)(''id'' \<mapsto> JStr (ref_id target))"
    and "updated \<equiv> d ++ timestamps_spread sdk forUpdate False"
  shows
  "(\<exists>r. fst (firekitDocMutations_add sdk cp d opts log) = Inr r)
   \<and> (\<exists>r. fst (firekitDocMutations_set sdk path d opts log) = Inr r)
   \<and> (\<exists>r. fst (firekitDocMutations_update sdk path d opts log) = Inr r)
   \<and> (\<exists>r. fst (firekitDocMutations_delete sdk path log) = Inr r)
   \<and> (\<exists>r. fst (firekitDocMutations_getDoc sdk path log) = Inr r)
   \<and> \<not> success (handleError e)
   \<and> resp_error (handleError e)
       = Some \<lparr> me_code = (case err_code e of
                             None \<Rightarrow> ''unknown_error''
                           | Some c \<Rightarrow> if c = [] then ''unknown_error'' else c),
                me_message = (case err_message e of
                                None \<Rightarrow> ''An unknown error occurred''
                              | Some m \<Rightarrow> if m = [] then ''An unknown error occurred'' else m) \<rparr>
   \<and> (getDbInstance sdk = Inl e
        \<or> getDbInstance sdk = Inr () \<and> sdk_collection sdk cp = Inl e
        \<or> getDbInstance sdk = Inr () \<and> sdk_collection sdk cp = Inr col
            \<and> truthy_string (opt_customId forAdd)
            \<and> sdk_doc_in sdk col (opt_customId forAdd) = Inl e
        \<or> getDbInstance sdk = Inr () \<and> sdk_collection sdk cp = Inr col
            \<and> \<not> truthy_string (opt_customId forAdd)
            \<and> sdk_addDoc sdk col (d ++ timestamps_spread sdk forAdd True) = Inl e
        \<or> getDbInstance sdk = Inr () \<and> sdk_collection sdk cp = Inr col
            \<and> (truthy_string (opt_customId forAdd)
                  \<and> sdk_doc_in sdk col (opt_customId forAdd) = Inr target
                \<or> \<not> truthy_string (opt_customId forAdd)
                  \<and> sdk_addDoc sdk col (d ++ timestamps_spread sdk forAdd True) = Inr target)
            \<and> sdk_setDoc sdk target added NoSetOptions = Inl e
        \<longrightarrow> fst (firekitDocMutations_add sdk cp d opts log) = Inr (handleError e))
   \<and> (getDbInstance sdk = Inr () \<and> sdk_collection sdk cp = Inr col
        \<and> (truthy_string (opt_customId forAdd)
              \<and> sdk_doc_in sdk col (opt_customId forAdd) = Inr target
            \<or> \<not> truthy_string (opt_customId forAdd)
              \<and> sdk_addDoc sdk col (d ++ timestamps_spread sdk forAdd True) = Inr target)
        \<and> sdk_setDoc sdk target added NoSetOptions = Inr ()
        \<longrightarrow> fst (firekitDocMutations_add sdk cp d opts log)
              = Inr \<lparr> success = True, resp_id = Some (ref_id target), resp_data = Some added,
                      resp_error = None \<rparr>)
   \<and> (getDbInstance sdk = Inl e
        \<or> getDbInstance sdk = Inr () \<and> CHR ''/'' \<in> set path \<and> sdk_doc sdk path = Inl e
        \<or> getDbInstance sdk = Inr () \<and> CHR ''/'' \<notin> set path \<and> sdk_collection sdk path = Inl e
        \<or> getDbInstance sdk = Inr () \<and> CHR ''/'' \<notin> set path \<and> sdk_collection sdk path = Inr col
            \<and> sdk_doc_in sdk col None = Inl e
        \<or> getDbInstance sdk = Inr ()
            \<and> (CHR ''/'' \<in> set path \<and> sdk_doc sdk path = Inr target
                \<or> CHR ''/'' \<notin> set path \<and> sdk_collection sdk path = Inr col
                  \<and> sdk_doc_in sdk col None = Inr target)
            \<and> sdk_setDoc sdk target written (SetOptions (opt_merge forSet)) = Inl e
        \<longrightarrow> fst (firekitDocMutations_set sdk path d opts log) = Inr (handleError e))
   \<and> (getDbInstance sdk = Inr ()
        \<and> (CHR ''/'' \<in> set path \<and> sdk_doc sdk path = Inr target
            \<or> CHR ''/'' \<notin> set path \<and> sdk_collection sdk path = Inr col
              \<and> sdk_doc_in sdk col None = Inr target)
        \<and> sdk_setDoc sdk target written (SetOptions (opt_merge forSet)) = Inr ()
        \<longrightarrow> fst (firekitDocMutations_set sdk path d opts log)
              = Inr \<lparr> success = True, resp_id = Some (ref_id target), resp_data = Some written,
                      resp_error = None \<rparr>)
   \<and> (getDbInstance sdk = Inl e
        \<or> getDbInstance sdk = Inr () \<and> sdk_doc sdk path = Inl e
        \<or> getDbInstance sdk = Inr () \<and> sdk_doc sdk path = Inr target
            \<and> sdk_updateDoc sdk target updated = Inl e
        \<longrightarrow> fst (firekitDocMutations_update sdk path d opts log) = Inr (handleError e))
   \<and> (getDbInstance sdk = Inr () \<and> sdk_doc sdk path = Inr target
        \<and> sdk_updateDoc sdk target updated = Inr ()
        \<longrightarrow> fst (firekitDocMutations_update sdk path d opts log)
              = Inr \<lparr> success = True, resp_id = Some (ref_id target), resp_data = Some updated,
                      resp_error = None \<rparr>)
   \<and> (getDbInstance sdk = Inl e
        \<or> getDbInstance sdk = Inr () \<and> sdk_doc sdk path = Inl e
        \<or> getDbInstance sdk = Inr () \<and> sdk_doc sdk path = Inr target
            \<and> sdk_deleteDoc sdk target = Inl e
        \<longrightarrow> fst (firekitDocMutations_delete sdk path log) = Inr (handleError e))
   \<and> (getDbInstance sdk = Inr () \<and> sdk_doc sdk path = Inr target
        \<and> sdk_deleteDoc sdk target = Inr ()
        \<longrightarrow> fst (firekitDocMutations_delete sdk path log)
              = Inr \<lparr> success = True, resp_id = Some (ref_id target), resp_data = None,
                      resp_error = None \<rparr>)
   \<and> (getDbInstance sdk = Inl e
        \<or> getDbInstance sdk = Inr () \<and> sdk_doc sdk path = Inl e
        \<or> getDbInstance sdk = Inr () \<and> sdk_doc sdk path = Inr target
            \<and> sdk_getDoc sdk target = Inl e
        \<longrightarrow> fst (firekitDocMutations_getDoc sdk path log) = Inr (handleError e))
   \<and> (getDbInstance sdk = Inr () \<and> sdk_doc sdk path = Inr target
        \<and> sdk_getDoc sdk target = Inr docSnap \<and> snap_data docSnap = Some docdata
        \<longrightarrow> fst (firekitDocMutations_getDoc sdk path log)
              = Inr \<lparr> success = True, resp_id = Some (snap_id docSnap),
                      resp_data = Some ([''id'' \<mapsto> JStr (snap_id docSnap)] ++ docdata),
                      resp_error = None \<rparr>)
   \<and> (getDbInstance sdk = Inr () \<and> sdk_doc sdk path = Inr target
        \<and> sdk_getDoc sdk target = Inr docSnap \<and> snap_data docSnap = None
        \<longrightarrow> fst (firekitDocMutations_getDoc sdk path log)
              = Inr \<lparr> success = False, resp_id = None, resp_data = None,
                      resp_error = Some \<lparr> me_code = ''not_found'',
                                          me_message = ''Document does not exist'' \<rparr> \<rparr>)"
proof -
  have never: "(\<exists>r. fst (firekitDocMutations_add sdk cp d opts log) = Inr r)
   \<and> (\<exists>r. fst (firekitDocMutations_set sdk path d opts log) = Inr r)
   \<and> (\<exists>r. fst (firekitDocMutations_update sdk path d opts log) = Inr r)
   \<and> (\<exists>r. fst (firekitDocMutations_delete sdk path log) = Inr r)
   \<and> (\<exists>r. fst (firekitDocMutations_getDoc sdk path log) = Inr r)"
    by (simp add: firekitDocMutations_add_def firekitDocMutations_set_def
        firekitDocMutations_update_def firekitDocMutations_delete_def firekitDocMutations_getDoc_def
        io_catch_return_fst)
  have add_fails: "fst (firekitDocMutations_add sdk cp d opts log) = Inr (handleError e)"
    if "getDbInstance sdk = Inl e
        \<or> getDbInstance sdk = Inr () \<and> sdk_collection sdk cp = Inl e
        \<or> getDbInstance sdk = Inr () \<and> sdk_collection sdk cp = Inr col
            \<and> truthy_string (opt_customId forAdd)
            \<and> sdk_doc_in sdk col (opt_customId forAdd) = Inl e
        \<or> getDbInstance sdk = Inr () \<and> sdk_collection sdk cp = Inr col
            \<and> \<not> truthy_string (opt_customId forAdd)
            \<and> sdk_addDoc sdk col (d ++ timestamps_spread sdk forAdd True) = Inl e
        \<or> getDbInstance sdk = Inr () \<and> sdk_collection sdk cp = Inr col
            \<and> (truthy_string (opt_customId forAdd)
                  \<and> sdk_doc_in sdk col (opt_customId forAdd) = Inr target
                \<or> \<not> truthy_string (opt_customId forAdd)
                  \<and> sdk_addDoc sdk col (d ++ timestamps_spread sdk forAdd True) = Inr target)
            \<and> sdk_setDoc sdk target added NoSetOptions = Inl e"
    using that unfolding forAdd_def added_def by (auto simp: add_run)
  have add_ok: "fst (firekitDocMutations_add sdk cp d opts log)
              = Inr \<lparr> success = True, resp_id = Some (ref_id target), resp_data = Some added,
                      resp_error = None \<rparr>"
    if "getDbInstance sdk = Inr () \<and> sdk_collection sdk cp = Inr col
        \<and> (truthy_string (opt_customId forAdd)
              \<and> sdk_doc_in sdk col (opt_customId forAdd) = Inr target
            \<or> \<not> truthy_string (opt_customId forAdd)
              \<and> sdk_addDoc sdk col (d ++ timestamps_spread sdk forAdd True) = Inr target)
        \<and> sdk_setDoc sdk target added NoSetOptions = Inr ()"
    using that unfolding forAdd_def added_def by (auto simp: add_run)
  have set_fails: "fst (firekitDocMutations_set sdk path d opts log) = Inr (handleError e)"
    if "getDbInstance sdk = Inl e
        \<or> getDbInstance sdk = Inr () \<and> CHR ''/'' \<in> set path \<and> sdk_doc sdk path = Inl e
        \<or> getDbInstance sdk = Inr () \<and> CHR ''/'' \<notin> set path \<and> sdk_collection sdk path = Inl e
        \<or> getDbInstance sdk = Inr () \<and> CHR ''/'' \<notin> set path \<and> sdk_collection sdk path = Inr col
            \<and> sdk_doc_in sdk col None = Inl e
        \<or> getDbInstance sdk = Inr ()
            \<and> (CHR ''/'' \<in> set path \<and> sdk_doc sdk path = Inr target
                \<or> CHR ''/'' \<notin> set path \<and> sdk_collection sdk path = Inr col
                  \<and> sdk_doc_in sdk col None = Inr target)
            \<and> sdk_setDoc sdk target written (SetOptions (opt_merge forSet)) = Inl e"
    using that unfolding forSet_def written_def by (auto simp: set_run)
  have set_ok: "fst (firekitDocMutations_set sdk path d opts log)
              = Inr \<lparr> success = True, resp_id = Some (ref_id target), resp_data = Some written,
                      resp_error = None \<rparr>"
    if "getDbInstance sdk = Inr ()
        \<and> (CHR ''/'' \<in> set path \<and> sdk_doc sdk path = Inr target
            \<or> CHR ''/'' \<notin> set path \<and> sdk_collection sdk path = Inr col
              \<and> sdk_doc_in sdk col None = Inr target)
        \<and> sdk_setDoc sdk target written (SetOptions (opt_merge forSet)) = Inr ()"
    using that unfolding forSet_def written_def by (auto simp: set_run)
  have update_fails: "fst (firekitDocMutations_update sdk path d opts log) = Inr (handleError e)"
    if "getDbInstance sdk = Inl e
        \<or> getDbInstance sdk = Inr () \<and> sdk_doc sdk path = Inl e
        \<or> getDbInstance sdk = Inr () \<and> sdk_doc sdk path = Inr target
            \<and> sdk_updateDoc sdk target updated = Inl e"
    using that unfolding forUpdate_def updated_def by (auto simp: update_run)
  have update_ok: "fst (firekitDocMutations_update sdk path d opts log)
              = Inr \<lparr> success = True, resp_id = Some (ref_id target), resp_data = Some updated,
                      resp_error = None \<rparr>"
    if "getDbInstance sdk = Inr () \<and> sdk_doc sdk path = Inr target
        \<and> sdk_updateDoc sdk target updated = Inr ()"
    using that unfolding forUpdate_def updated_def by (auto simp: update_run)
  have delete_fails: "fst (firekitDocMutations_delete sdk path log) = Inr (handleError e)"
    if "getDbInstance sdk = Inl e
        \<or> getDbInstance sdk = Inr () \<and> sdk_doc sdk path = Inl e
        \<or> getDbInstance sdk = Inr () \<and> sdk_doc sdk path = Inr target
            \<and> sdk_deleteDoc sdk target = Inl e"
    using that by (auto simp: delete_run)
  have delete_ok: "fst (firekitDocMutations_delete sdk path log)
              = Inr \<lparr> success = True, resp_id = Some (ref_id target), resp_data = None,
                      resp_error = None \<rparr>"
    if "getDbInstance sdk = Inr () \<and> sdk_doc sdk path = Inr target
        \<and> sdk_deleteDoc sdk target = Inr ()"
    using that by (auto simp: delete_run)
  have getDoc_fails: "fst (firekitDocMutations_getDoc sdk path log) = Inr (handleError e)"
    if "getDbInstance sdk = Inl e
        \<or> getDbInstance sdk = Inr () \<and> sdk_doc sdk path = Inl e
        \<or> getDbInstance sdk = Inr () \<and> sdk_doc sdk path = Inr target
            \<and> sdk_getDoc sdk target = Inl e"
    using that by (auto simp: getDoc_run)
  have getDoc_found: "fst (firekitDocMutations_getDoc sdk path log)
              = Inr \<lparr> success = True, resp_id = Some (snap_id docSnap),
                      resp_data = Some ([''id'' \<mapsto> JStr (snap_id docSnap)] ++ docdata),
                      resp_error = None \<rparr>"
    if "getDbInstance sdk = Inr () \<and> sdk_doc sdk path = Inr target
        \<and> sdk_getDoc sdk target = Inr docSnap \<and> snap_data docSnap = Some docdata"
    using that by (auto simp: getDoc_run)
  have getDoc_absent: "fst (firekitDocMutations_getDoc sdk path log)
              = Inr \<lparr> success = False, resp_id = None, resp_data = None,
                      resp_error = Some \<lparr> me_code = ''not_found'',
                                          me_message = ''Document does not exist'' \<rparr> \<rparr>"
    if "getDbInstance sdk = Inr () \<and> sdk_doc sdk path = Inr target
        \<and> sdk_getDoc sdk target = Inr docSnap \<and> snap_data docSnap = None"
    using that by (auto simp: getDoc_run)
  show ?thesis
    using never handleError_report [of e] add_fails add_ok set_fails set_ok update_fails update_ok
      delete_fails delete_ok getDoc_fails getDoc_found getDoc_absent
    by (intro conjI impI) (simp_all only:, simp_all)
qed

theorem C3_witness:
  "fst (firekitDocMutations_delete sdk_denied ''users/123'' []) = Inr (handleError permission_denied)
   \<and> map_option me_code (resp_error (handleError permission_denied)) = Some ''permission-denied''
   \<and> fst (firekitDocMutations_set sdk_denied ''users/123'' [''name'' \<mapsto> JStr ''Jane''] None [])
       = Inr (handleError permission_denied)
   \<and> fst (firekitDocMutations_add sdk_denied ''users'' [''name'' \<mapsto> JStr ''Jane''] None [])
       = Inr (handleError permission_denied)
   \<and> fst (firekitDocMutations_delete sdk_ok ''users/123'' [])
       = Inr \<lparr> success = True, resp_id = Some ''123'', resp_data = None, resp_error = None \<rparr>
   \<and> map_sum id success
         (fst (firekitDocMutations_set sdk_ok ''users/123'' [''name'' \<mapsto> JStr ''Jane''] None []))
       = Inr True
   \<and> map_sum id resp_id
         (fst (firekitDocMutations_set sdk_ok ''users/123'' [''name'' \<mapsto> JStr ''Jane''] None []))
       = Inr (Some ''123'')
   \<and> map_sum id resp_id
         (fst (firekitDocMutations_add sdk_ok ''users'' [''name'' \<mapsto> JStr ''Jane''] None []))
       = Inr (Some ''auto1'')
   \<and> map_sum id resp_id (fst (firekitDocMutations_getDoc sdk_found ''users/123'' []))
       = Inr (Some ''123'')"
proof -
  let ?target = "\<lparr> ref_id = ''123'', ref_path = ''users/123'' \<rparr>"
  let ?fresh = "\<lparr> ref_id = ''auto1'', ref_path = ''users/auto1'' \<rparr>"
  let ?jane = "[''name'' \<mapsto> JStr ''Jane'']"
  note sdks = sdk_ok_def sdk_denied_def sdk_found_def last_segment_def options_or_def
    add_default_options_def set_default_options_def truthy_string_def
  note refused = C3_mutations_catch_and_report
    [where sdk = sdk_denied and path = "''users/123''" and cp = "''users''" and col = "''users''"
       and d = ?jane and opts = None and log = "[]" and e = permission_denied]
  have "fst (firekitDocMutations_delete sdk_denied ''users/123'' []) = Inr (handleError permission_denied)
     \<and> fst (firekitDocMutations_set sdk_denied ''users/123'' ?jane None []) = Inr (handleError permission_denied)"
    using refused [where target = ?target] by (simp add: sdks)
  moreover have "fst (firekitDocMutations_add sdk_denied ''users'' ?jane None []) = Inr (handleError permission_denied)"
    using refused [where target = ?fresh] by (simp add: sdks)
  moreover have "map_option me_code (resp_error (handleError permission_denied)) = Some ''permission-denied''"
    using refused [where target = ?target] by (simp add: permission_denied_def)
  moreover have "fst (firekitDocMutations_delete sdk_ok ''users/123'' [])
       = Inr \<lparr> success = True, resp_id = Some ''123'', resp_data = None, resp_error = None \<rparr>
     \<and> map_sum id success (fst (firekitDocMutations_set sdk_ok ''users/123'' ?jane None [])) = Inr True
     \<and> map_sum id resp_id (fst (firekitDocMutations_set sdk_ok ''users/123'' ?jane None [])) = Inr (Some ''123'')"
    using C3_mutations_catch_and_report
      [where sdk = sdk_ok and path = "''users/123''" and cp = "''users''" and col = "''users''"
         and d = ?jane and opts = None and log = "[]" and target = ?target]
    by (simp add: sdks)
  moreover have "map_sum id resp_id (fst (firekitDocMutations_add sdk_ok ''users'' ?jane None []))
       = Inr (Some ''auto1'')"
    using C3_mutations_catch_and_report
      [where sdk = sdk_ok and path = "''users/123''" and cp = "''users''" and col = "''users''"
         and d = ?jane and opts = None and log = "[]" and target = ?fresh]
    by (simp add: sdks)
  moreover have "map_sum id resp_id (fst (firekitDocMutations_getDoc sdk_found ''users/123'' []))
       = Inr (Some ''123'')"
    using C3_mutations_catch_and_report
      [where sdk = sdk_found and path = "''users/123''" and target = ?target
         and docSnap = "\<lparr> snap_id = ''123'', snap_data = Some [''name'' \<mapsto> JStr ''Ann''] \<rparr>"
         and docdata = "[''name'' \<mapsto> JStr ''Ann'']"]
    by (simp add: sdks)
  ultimately show ?thesis by simp
qed

text \<open>
  Claim C3 as stated fails twice. A \<^verbatim>\<open>getDoc\<close> whose vendor calls all succeed returns
  \<^verbatim>\<open>success: false\<close> when the document does not exist; and an error thrown without a
  code is not reported with its own (missing) code but as \<open>unknown_error\<close>.
\<close>

theorem C3_counterexample:
  "sdk_getDoc sdk_ok \<lparr> ref_id = ''123'', ref_path = ''users/123'' \<rparr>
     = Inr \<lparr> snap_id = ''123'', snap_data = None \<rparr>
   \<and> fst (firekitDocMutations_getDoc sdk_ok ''users/123'' [])
     = Inr \<lparr> success = False, resp_id = None, resp_data = None,
             resp_error = Some \<lparr> me_code = ''not_found'', me_message = ''Document does not exist'' \<rparr> \<rparr>
   \<and> err_code (new_Error ''offline'') = None
   \<and> resp_error (handleError (new_Error ''offline''))
     = Some \<lparr> me_code = ''unknown_error'', me_message = ''offline'' \<rparr>"
  by (simp add: firekitDocMutations_getDoc_def getDoc_try_def io_defs getDoc_def sdk_ok_def
      last_segment_def handleError_def or_else_def new_Error_def)

lemma augmented_with_map_add: "augmented_with d extra (d ++ extra)"
  by (auto simp: augmented_with_def map_add_def split: option.splits)

lemma timestamps_spread_enabled:
  assumes "opts = None \<or> (\<exists>given. opts = Some given \<and> opt_timestamps given = Some True)"
  shows "timestamps_spread sdk (options_or add_default_options opts) True
           = [''updatedAt'' \<mapsto> JServerTimestamp, ''updatedBy'' \<mapsto> uid_value (firekitUser_uid sdk),
              ''createdAt'' \<mapsto> JServerTimestamp, ''createdBy'' \<mapsto> uid_value (firekitUser_uid sdk)]"
    and "timestamps_spread sdk (options_or set_default_options opts) True
           = [''updatedAt'' \<mapsto> JServerTimestamp, ''updatedBy'' \<mapsto> uid_value (firekitUser_uid sdk),
              ''createdAt'' \<mapsto> JServerTimestamp, ''createdBy'' \<mapsto> uid_value (firekitUser_uid sdk)]"
    and "timestamps_spread sdk (options_or update_default_options opts) False
           = [''updatedAt'' \<mapsto> JServerTimestamp, ''updatedBy'' \<mapsto> uid_value (firekitUser_uid sdk)]"
  using assms
  by (auto simp: timestamps_spread_def getTimestampData_def options_or_def truthy_flag_def
      add_default_options_def set_default_options_def update_default_options_def)

text \<open>
  Claim C2, as the code has it. With timestamps enabled (the default, or
  \<^verbatim>\<open>timestamps: true\<close>), what each method hands to the store is fixed by the vendor's
  answers. \<^verbatim>\<open>set\<close>, once its target reference is resolved, makes exactly one
  \<^verbatim>\<open>setDoc\<close> call, with the caller's data overlaid by \<open>updatedAt\<close>, \<open>updatedBy\<close>,
  \<open>createdAt\<close>, \<open>createdBy\<close> and \<open>id\<close> (the id of the target). \<^verbatim>\<open>add\<close> with a
  custom id makes exactly one such \<^verbatim>\<open>setDoc\<close> call; without a custom id it first calls
  \<^verbatim>\<open>addDoc\<close> with the caller's data overlaid by the four timestamp fields and no
  \<open>id\<close>, and then, if that succeeds, \<^verbatim>\<open>setDoc\<close> with the five fields. \<^verbatim>\<open>update\<close>,
  once its target is resolved, makes exactly one \<^verbatim>\<open>updateDoc\<close> call, with the caller's
  data overlaid by \<open>updatedAt\<close> and \<open>updatedBy\<close> only, and no \<open>id\<close>. When the target
  cannot be resolved nothing is written. Each payload has the caller's fields and the
  bookkeeping fields and no other, and every caller field whose name is not a
  bookkeeping field keeps the caller's value.
\<close>

theorem C2_written_payloads:
  fixes sdk :: firestore_sdk and d :: document_data and opts :: "mutation_options option"
    and target :: doc_ref
  defines "updated \<equiv> [''updatedAt'' \<mapsto> JServerTimestamp,
                         ''updatedBy'' \<mapsto> uid_value (firekitUser_uid sdk)]"
  defines "created \<equiv> updated(''createdAt'' \<mapsto> JServerTimestamp,
                                 ''createdBy'' \<mapsto> uid_value (firekitUser_uid sdk))"
  defines "identified \<equiv> created(''id'' \<mapsto> JStr (ref_id target))"
  assumes enabled: "opts = None \<or> (\<exists>given. opts = Some given \<and> opt_timestamps given = Some True)"
  shows
  "(getDbInstance sdk = Inr ()
      \<and> (CHR ''/'' \<in> set path \<and> sdk_doc sdk path = Inr target
          \<or> CHR ''/'' \<notin> set path \<and> sdk_collection sdk path = Inr col
            \<and> sdk_doc_in sdk col None = Inr target)
      \<longrightarrow> snd (firekitDocMutations_set sdk path d opts log)
            = log @ [SetDoc target (d ++ identified)
                       (SetOptions (opt_merge (options_or set_default_options opts)))])
   \<and> (getDbInstance sdk = Inr () \<and> sdk_collection sdk cp = Inr col
      \<and> truthy_string (opt_customId (options_or add_default_options opts))
      \<and> sdk_doc_in sdk col (opt_customId (options_or add_default_options opts)) = Inr target
      \<longrightarrow> snd (firekitDocMutations_add sdk cp d opts log)
            = log @ [SetDoc target (d ++ identified) NoSetOptions])
   \<and> (getDbInstance sdk = Inr () \<and> sdk_collection sdk cp = Inr col
      \<and> \<not> truthy_string (opt_customId (options_or add_default_options opts))
      \<and> sdk_addDoc sdk col (d ++ created) = Inr target
      \<longrightarrow> snd (firekitDocMutations_add sdk cp d opts log)
            = log @ [AddDoc col (d ++ created), SetDoc target (d ++ identified) NoSetOptions])
   \<and> (getDbInstance sdk = Inr () \<and> sdk_collection sdk cp = Inr col
      \<and> \<not> truthy_string (opt_customId (options_or add_default_options opts))
      \<and> sdk_addDoc sdk col (d ++ created) = Inl e
      \<longrightarrow> snd (firekitDocMutations_add sdk cp d opts log) = log @ [AddDoc col (d ++ created)])
   \<and> (getDbInstance sdk = Inr () \<and> sdk_doc sdk path = Inr target
      \<longrightarrow> snd (firekitDocMutations_update sdk path d opts log)
            = log @ [UpdateDoc target (d ++ updated)])
   \<and> (getDbInstance sdk = Inl e
        \<or> getDbInstance sdk = Inr () \<and> CHR ''/'' \<in> set path \<and> sdk_doc sdk path = Inl e
        \<or> getDbInstance sdk = Inr () \<and> CHR ''/'' \<notin> set path \<and> sdk_collection sdk path = Inl e
        \<or> getDbInstance sdk = Inr () \<and> CHR ''/'' \<notin> set path \<and> sdk_collection sdk path = Inr col
            \<and> sdk_doc_in sdk col None = Inl e
      \<longrightarrow> snd (firekitDocMutations_set sdk path d opts log) = log)
   \<and> (getDbInstance sdk = Inl e
        \<or> getDbInstance sdk = Inr () \<and> sdk_collection sdk cp = Inl e
        \<or> getDbInstance sdk = Inr () \<and> sdk_collection sdk cp = Inr col
            \<and> truthy_string (opt_customId (options_or add_default_options opts))
            \<and> sdk_doc_in sdk col (opt_customId (options_or add_default_options opts)) = Inl e
      \<longrightarrow> snd (firekitDocMutations_add sdk cp d opts log) = log)
   \<and> (getDbInstance sdk = Inl e
        \<or> getDbInstance sdk = Inr () \<and> sdk_doc sdk path = Inl e
      \<longrightarrow> snd (firekitDocMutations_update sdk path d opts log) = log)
   \<and> augmented_with d identified (d ++ identified)
   \<and> augmented_with d created (d ++ created)
   \<and> augmented_with d updated (d ++ updated)
   \<and> dom identified = {''updatedAt'', ''updatedBy'', ''createdAt'', ''createdBy'', ''id''}
   \<and> dom created = {''updatedAt'', ''updatedBy'', ''createdAt'', ''createdBy''}
   \<and> dom updated = {''updatedAt'', ''updatedBy''}
   \<and> identified ''id'' = Some (JStr (ref_id target))
   \<and> created ''id'' = None
   \<and> updated ''id'' = None"
proof -
  note ts = timestamps_spread_enabled [OF enabled, of sdk]
  have set_writes: "snd (firekitDocMutations_set sdk path d opts log)
            = log @ [SetDoc target (d ++ identified)
                       (SetOptions (opt_merge (options_or set_default_options opts)))]"
    if "getDbInstance sdk = Inr ()
      \<and> (CHR ''/'' \<in> set path \<and> sdk_doc sdk path = Inr target
          \<or> CHR ''/'' \<notin> set path \<and> sdk_collection sdk path = Inr col
            \<and> sdk_doc_in sdk col None = Inr target)"
    using that unfolding identified_def created_def updated_def
    by (auto simp: set_run ts split: sum.splits)
  have add_custom: "snd (firekitDocMutations_add sdk cp d opts log)
            = log @ [SetDoc target (d ++ identified) NoSetOptions]"
    if "getDbInstance sdk = Inr () \<and> sdk_collection sdk cp = Inr col
      \<and> truthy_string (opt_customId (options_or add_default_options opts))
      \<and> sdk_doc_in sdk col (opt_customId (options_or add_default_options opts)) = Inr target"
    using that unfolding identified_def created_def updated_def
    by (auto simp: add_run ts split: sum.splits)
  have add_auto: "snd (firekitDocMutations_add sdk cp d opts log)
            = log @ [AddDoc col (d ++ created), SetDoc target (d ++ identified) NoSetOptions]"
    if "getDbInstance sdk = Inr () \<and> sdk_collection sdk cp = Inr col
      \<and> \<not> truthy_string (opt_customId (options_or add_default_options opts))
      \<and> sdk_addDoc sdk col (d ++ created) = Inr target"
    using that unfolding identified_def created_def updated_def
    by (auto simp: add_run ts split: sum.splits)
  have add_refused: "snd (firekitDocMutations_add sdk cp d opts log) = log @ [AddDoc col (d ++ created)]"
    if "getDbInstance sdk = Inr () \<and> sdk_collection sdk cp = Inr col
      \<and> \<not> truthy_string (opt_customId (options_or add_default_options opts))
      \<and> sdk_addDoc sdk col (d ++ created) = Inl e"
    using that unfolding identified_def created_def updated_def
    by (auto simp: add_run ts split: sum.splits)
  have update_writes: "snd (firekitDocMutations_update sdk path d opts log)
            = log @ [UpdateDoc target (d ++ updated)]"
    if "getDbInstance sdk = Inr () \<and> sdk_doc sdk path = Inr target"
    using that unfolding identified_def created_def updated_def
    by (auto simp: update_run ts split: sum.splits)
  have set_nothing: "snd (firekitDocMutations_set sdk path d opts log) = log"
    if "getDbInstance sdk = Inl e
        \<or> getDbInstance sdk = Inr () \<and> CHR ''/'' \<in> set path \<and> sdk_doc sdk path = Inl e
        \<or> getDbInstance sdk = Inr () \<and> CHR ''/'' \<notin> set path \<and> sdk_collection sdk path = Inl e
        \<or> getDbInstance sdk = Inr () \<and> CHR ''/'' \<notin> set path \<and> sdk_collection sdk path = Inr col
            \<and> sdk_doc_in sdk col None = Inl e"
    using that by (auto simp: set_run)
  have add_nothing: "snd (firekitDocMutations_add sdk cp d opts log) = log"
    if "getDbInstance sdk = Inl e
        \<or> getDbInstance sdk = Inr () \<and> sdk_collection sdk cp = Inl e
        \<or> getDbInstance sdk = Inr () \<and> sdk_collection sdk cp = Inr col
            \<and> truthy_string (opt_customId (options_or add_default_options opts))
            \<and> sdk_doc_in sdk col (opt_customId (options_or add_default_options opts)) = Inl e"
    using that by (auto simp: add_run)
  have update_nothing: "snd (firekitDocMutations_update sdk path d opts log) = log"
    if "getDbInstance sdk = Inl e
        \<or> getDbInstance sdk = Inr () \<and> sdk_doc sdk path = Inl e"
    using that by (auto simp: update_run)
  have shape: "augmented_with d identified (d ++ identified)
   \<and> augmented_with d created (d ++ created)
   \<and> augmented_with d updated (d ++ updated)"
    by (simp add: augmented_with_map_add)
  have names: "dom identified = {''updatedAt'', ''updatedBy'', ''createdAt'', ''createdBy'', ''id''}
   \<and> dom created = {''updatedAt'', ''updatedBy'', ''createdAt'', ''createdBy''}
   \<and> dom updated = {''updatedAt'', ''updatedBy''}
   \<and> identified ''id'' = Some (JStr (ref_id target))
   \<and> created ''id'' = None
   \<and> updated ''id'' = None"
    unfolding identified_def created_def updated_def by auto
  show ?thesis
    using set_writes add_custom add_auto add_refused update_writes set_nothing add_nothing
      update_nothing shape names
    by (intro conjI impI) (simp_all only:, simp_all)
qed

theorem C2_witness:
  "((None :: mutation_options option) = None
      \<or> (\<exists>given. None = Some given \<and> opt_timestamps given = Some True))
   \<and> length (snd (firekitDocMutations_set sdk_ok ''users/123'' [''name'' \<mapsto> JStr ''Jane''] None [])) = 1
   \<and> map (written_field ''name'')
       (snd (firekitDocMutations_set sdk_ok ''users/123'' [''name'' \<mapsto> JStr ''Jane''] None []))
     = [Some (JStr ''Jane'')]
   \<and> map (written_field ''id'')
       (snd (firekitDocMutations_set sdk_ok ''users/123'' [''name'' \<mapsto> JStr ''Jane''] None []))
     = [Some (JStr ''123'')]
   \<and> map (written_field ''updatedBy'')
       (snd (firekitDocMutations_set sdk_ok ''users/123'' [''name'' \<mapsto> JStr ''Jane''] None []))
     = [Some (JStr ''u1'')]
   \<and> map (written_field ''createdAt'')
       (snd (firekitDocMutations_add sdk_ok ''users'' [''name'' \<mapsto> JStr ''Jane''] None []))
     = [Some JServerTimestamp, Some JServerTimestamp]
   \<and> map (written_field ''name'')
       (snd (firekitDocMutations_add sdk_ok ''users'' [''name'' \<mapsto> JStr ''Jane''] None []))
     = [Some (JStr ''Jane''), Some (JStr ''Jane'')]
   \<and> map (written_field ''name'')
       (snd (firekitDocMutations_update sdk_ok ''users/123'' [''name'' \<mapsto> JStr ''Jane''] None []))
     = [Some (JStr ''Jane'')]
   \<and> map (written_field ''updatedAt'')
       (snd (firekitDocMutations_update sdk_ok ''users/123'' [''name'' \<mapsto> JStr ''Jane''] None []))
     = [Some JServerTimestamp]
   \<and> map (written_field ''age'')
       (snd (firekitDocMutations_update sdk_ok ''users/123'' [''name'' \<mapsto> JStr ''Jane''] None []))
     = [None]"
proof -
  let ?jane = "[''name'' \<mapsto> JStr ''Jane'']"
  have enabled: "(None :: mutation_options option) = None
      \<or> (\<exists>given. None = Some given \<and> opt_timestamps given = Some True)"
    by simp
  note sdks = sdk_ok_def last_segment_def options_or_def add_default_options_def
    set_default_options_def truthy_string_def written_field_def uid_value_def
  have at_123: "length (snd (firekitDocMutations_set sdk_ok ''users/123'' ?jane None [])) = 1
     \<and> map (written_field ''name'') (snd (firekitDocMutations_set sdk_ok ''users/123'' ?jane None []))
         = [Some (JStr ''Jane'')]
     \<and> map (written_field ''id'') (snd (firekitDocMutations_set sdk_ok ''users/123'' ?jane None []))
         = [Some (JStr ''123'')]
     \<and> map (written_field ''updatedBy'') (snd (firekitDocMutations_set sdk_ok ''users/123'' ?jane None []))
         = [Some (JStr ''u1'')]
     \<and> map (written_field ''name'') (snd (firekitDocMutations_update sdk_ok ''users/123'' ?jane None []))
         = [Some (JStr ''Jane'')]
     \<and> map (written_field ''updatedAt'') (snd (firekitDocMutations_update sdk_ok ''users/123'' ?jane None []))
         = [Some JServerTimestamp]
     \<and> map (written_field ''age'') (snd (firekitDocMutations_update sdk_ok ''users/123'' ?jane None []))
         = [None]"
    using C2_written_payloads
      [OF enabled, where sdk = sdk_ok and path = "''users/123''" and d = ?jane and log = "[]"
         and target = "\<lparr> ref_id = ''123'', ref_path = ''users/123'' \<rparr>"]
    by (simp add: sdks)
  have at_auto: "map (written_field ''createdAt'') (snd (firekitDocMutations_add sdk_ok ''users'' ?jane None []))
         = [Some JServerTimestamp, Some JServerTimestamp]
     \<and> map (written_field ''name'') (snd (firekitDocMutations_add sdk_ok ''users'' ?jane None []))
         = [Some (JStr ''Jane''), Some (JStr ''Jane'')]"
    using C2_written_payloads
      [OF enabled, where sdk = sdk_ok and cp = "''users''" and col = "''users''" and d = ?jane
         and log = "[]" and target = "\<lparr> ref_id = ''auto1'', ref_path = ''users/auto1'' \<rparr>"]
    by (simp add: sdks)
  show ?thesis using enabled at_123 at_auto by simp
qed

text \<open>
  Claim C2 as stated fails: \<^verbatim>\<open>update\<close> writes no \<open>id\<close> field; \<^verbatim>\<open>set\<close>, not only
  \<^verbatim>\<open>add\<close>, writes \<open>createdAt\<close>; a field \<open>id\<close> of the caller's data is replaced, not
  passed through; and the first write of \<^verbatim>\<open>add\<close> without a custom id has no \<open>id\<close>.
\<close>

theorem C2_counterexample:
  "map (written_field ''id'')
       (snd (firekitDocMutations_update sdk_ok ''users/123'' [''name'' \<mapsto> JStr ''Jane''] None []))
     = [None]
   \<and> map (written_field ''createdAt'')
       (snd (firekitDocMutations_set sdk_ok ''users/123'' [''name'' \<mapsto> JStr ''Jane''] None []))
     = [Some JServerTimestamp]
   \<and> map (written_field ''id'')
       (snd (firekitDocMutations_set sdk_ok ''users/123'' [''id'' \<mapsto> JStr ''mine''] None []))
     = [Some (JStr ''123'')]
   \<and> map (written_field ''id'')
       (snd (firekitDocMutations_add sdk_ok ''users'' [''name'' \<mapsto> JStr ''Jane''] None []))
     = [None, Some (JStr ''auto1'')]"
  by (simp add: firekitDocMutations_update_def firekitDocMutations_set_def firekitDocMutations_add_def
      update_try_def set_try_def add_try_def io_defs addDoc_def setDoc_def updateDoc_def options_or_def
      update_default_options_def set_default_options_def add_default_options_def
      timestamps_spread_def truthy_flag_def truthy_string_def getTimestampData_def
      sdk_ok_def last_segment_def written_field_def uid_value_def Let_def)

section \<open>Properties of the presence service\<close>

lemmas io_state_defs = io_throw_def io_get_def io_modify_def



lemma cleanup_stale_state: "snd (cleanup_stale env cfg ss this) = this"
  by (simp add: cleanup_stale_def io_defs io_state_defs split: option.splits sum.splits)

lemma cleanup_stale_filters:
  assumes "fst (cleanup_stale env cfg ss this) = Inr out" "sessionTTL cfg = Some ttl" "ttl \<noteq> 0"
  shows "\<exists>cutoffTime. toISOString env (now_cutoff env - ttl) = Inr cutoffTime
           \<and> out = filter (\<lambda>session. cutoffTime \<le> sd_lastSeen session) ss"
  using assms by (auto simp: cleanup_stale_def io_defs io_state_defs split: sum.splits)
































end
